theory Spec2Isabelle
  imports Complex_Main "HOL-Library.Sublist"
begin

section \<open>Python values\<close>

text \<open>
  Everything the client and the workflow handle has come out of \<^verbatim>\<open>json.loads\<close>, so a
  value is one of the JSON shapes. A Python \<^verbatim>\<open>dict\<close> with string keys is an association
  list, looked up with \<open>map_of\<close>; a Python \<^verbatim>\<open>int\<close> is unbounded. A \<^verbatim>\<open>float\<close> is only ever
  tested for truth and compared with zero, so it is a real number or one of the three
  special values that \<^verbatim>\<open>json.loads\<close> accepts.

  A \<^verbatim>\<open>str\<close> is modelled as a \<open>string\<close>: the bytes of its UTF-8 encoding (a lone
  surrogate, which a JSON escape can produce, as \<^verbatim>\<open>surrogatepass\<close> encodes it). An ASCII
  text is part of a \<^verbatim>\<open>str\<close> exactly when its bytes are part of these bytes.
\<close>

datatype pyfloat = Finite real | PosInf | NegInf | NaN

datatype pyval =
    PNone
  | PBool bool
  | PInt int
  | PFloat pyfloat
  | PStr string
  | PList "pyval list"
  | PDict "(string \<times> pyval) list"

text \<open>
  The exceptions the modelled code raises. \<open>Exception m\<close> is \<^verbatim>\<open>raise Exception(m)\<close> with
  the message \<open>m\<close>; \<open>ServerError v\<close> is the \<^verbatim>\<open>Exception\<close> whose message is the server-error
  prefix followed by \<^verbatim>\<open>str(v)\<close> (the rendering of a value is not modelled, so the value
  itself is carried).
\<close>

datatype error =
    RuntimeError string
  | Exception string
  | ServerError pyval
  | JSONDecodeError string
  | BrokenPipeError
  | UnicodeDecodeError
  | ValueError
  | RecursionError
  | TypeError
  | AttributeError

text \<open>
  A call returns, raises, or never comes back (it waits for ever on a stream).
\<close>

datatype 'a res = Ok 'a | Raise error | Hang

subsection \<open>Built-in operations\<close>

text \<open>Python truth: \<^verbatim>\<open>bool(v)\<close>.\<close>

fun truthy :: "pyval \<Rightarrow> bool" where
  "truthy PNone = False"
| "truthy (PBool b) = b"
| "truthy (PInt i) = (i \<noteq> 0)"
| "truthy (PFloat f) = (f \<noteq> Finite 0)"
| "truthy (PStr s) = (s \<noteq> [])"
| "truthy (PList xs) = (xs \<noteq> [])"
| "truthy (PDict d) = (d \<noteq> [])"

text \<open>\<^verbatim>\<open>k in d\<close> and \<^verbatim>\<open>d.get(k, default)\<close> on a dict.\<close>

definition has_key :: "(string \<times> pyval) list \<Rightarrow> string \<Rightarrow> bool" where
  "has_key d k = (map_of d k \<noteq> None)"

definition dict_get :: "(string \<times> pyval) list \<Rightarrow> string \<Rightarrow> pyval \<Rightarrow> pyval" where
  "dict_get d k dflt = (case map_of d k of None \<Rightarrow> dflt | Some v \<Rightarrow> v)"

text \<open>
  \<^verbatim>\<open>v.get(k, default)\<close> on any value: only a dict has the method.
\<close>

fun py_get :: "pyval \<Rightarrow> string \<Rightarrow> pyval \<Rightarrow> pyval res" where
  "py_get (PDict d) k dflt = Ok (dict_get d k dflt)"
| "py_get _ k dflt = Raise AttributeError"

text \<open>
  \<^verbatim>\<open>for x in v\<close>: the elements of a list, the one-character strings of a str, the keys of
  a dict; nothing else is iterable.
\<close>

fun py_iter :: "pyval \<Rightarrow> pyval list res" where
  "py_iter (PList xs) = Ok xs"
| "py_iter (PStr s) = Ok (map (\<lambda>c. PStr [c]) s)"
| "py_iter (PDict d) = Ok (map (\<lambda>kv. PStr (fst kv)) d)"
| "py_iter _ = Raise TypeError"

text \<open>\<^verbatim>\<open>v > 0\<close>; \<^verbatim>\<open>bool\<close> is a subclass of \<^verbatim>\<open>int\<close>.\<close>

fun py_gt_zero :: "pyval \<Rightarrow> bool res" where
  "py_gt_zero (PBool b) = Ok b"
| "py_gt_zero (PInt i) = Ok (0 < i)"
| "py_gt_zero (PFloat (Finite r)) = Ok (0 < r)"
| "py_gt_zero (PFloat PosInf) = Ok True"
| "py_gt_zero (PFloat NegInf) = Ok False"
| "py_gt_zero (PFloat NaN) = Ok False"
| "py_gt_zero _ = Raise TypeError"

text \<open>\<^verbatim>\<open>needle in haystack\<close> on strings: a contiguous occurrence.\<close>

fun str_contains :: "string \<Rightarrow> string \<Rightarrow> bool" where
  "str_contains needle [] = (needle = [])"
| "str_contains needle (c # cs) = (prefix needle (c # cs) \<or> str_contains needle cs)"

text \<open>
  \<^verbatim>\<open>str.lower\<close> is Python's, and works by the Unicode tables (it turns the Kelvin sign
  U+212A into \<^verbatim>\<open>k\<close>, for one). It is not modelled: the definitions that lower-case
  take the function as the parameter \<open>lower\<close>, on the UTF-8 text of a string, and every
  statement about them holds for whatever function it is.
\<close>

type_synonym lowering = "string \<Rightarrow> string"

text \<open>
  \<^verbatim>\<open>json.loads\<close> is the standard library's too: every definition that decodes takes the
  decoder of a text as the parameter \<open>loads\<close>, which gives the decoded value or the
  exception raised: \<open>JSONDecodeError m\<close> with its message for a text that is not JSON,
  or another one (\<^verbatim>\<open>RecursionError\<close> on a text nested too deep). Called on anything
  but a \<^verbatim>\<open>str\<close> it raises \<^verbatim>\<open>TypeError\<close>.
\<close>

type_synonym decoder = "string \<Rightarrow> error + pyval"

fun json_loads :: "decoder \<Rightarrow> pyval \<Rightarrow> pyval res" where
  "json_loads loads (PStr s) = (case loads s of Inl e \<Rightarrow> Raise e | Inr v \<Rightarrow> Ok v)"
| "json_loads loads _ = Raise TypeError"

section \<open>The stdio client: \<^verbatim>\<open>MCPServerStdio\<close>\<close>

text \<open>
  The child process is what the client writes requests to and reads lines from. Its
  \<open>inbox\<close> collects the requests handed to \<^verbatim>\<open>stdin.write\<close>; its \<open>script\<close> says, for each
  request still to come, what the client will meet: the write fails, no line within the
  30 seconds, end of stream, a line longer than the stream reader's limit of 64 KiB
  (\<^verbatim>\<open>readline\<close> raises \<^verbatim>\<open>ValueError\<close>), bytes that are not UTF-8, or a line of text
  (\<open>Line l\<close>: the text of the line is \<open>l\<close>, up to the line terminator, which is white
  space to \<^verbatim>\<open>json.loads\<close>). The client is deterministic, so whatever a child answers in
  a run is one such script, and a statement for all scripts covers every child.

  On most failure paths the client reads the child's error stream for diagnosis
  (\<^verbatim>\<open>await self.process.stderr.read(1024)\<close>, with no timeout) and logs
  \<^verbatim>\<open>stderr_data.decode()\<close>. \<open>stderr\<close> says how these reads go during the exchange:
  they come back with text or the end of the stream (\<open>Readable\<close>), one of them never
  comes back (\<open>Blocks\<close>), or one brings bytes that are not UTF-8 (\<open>Garbled\<close>), and
  then the \<^verbatim>\<open>decode\<close> raises in place of the exception being handled.
\<close>

datatype reply = WriteFails | NoLine | Eof | Overlong | Undecodable | Line string

datatype stderr_read = Readable | Blocks | Garbled

record exchange =
  reply :: reply
  stderr :: stderr_read

record child =
  inbox :: "pyval list"
  script :: "exchange list"

record mcp_server_stdio =
  process :: "child option"
  cache_tools_list :: bool
  tools_cache :: pyval
  next_request_id :: int
  initialized :: bool

text \<open>\<^verbatim>\<open>__init__\<close>: no process yet, nothing cached, the first id is 1.\<close>

definition mcp_init :: "bool \<Rightarrow> mcp_server_stdio" where
  "mcp_init cache =
     \<lparr>process = None, cache_tools_list = cache, tools_cache = PNone,
      next_request_id = 1, initialized = False\<rparr>"

text \<open>The messages of the exceptions, as the bytes of their UTF-8 text.\<close>

definition msg_not_started :: string where
  "msg_not_started = ''MCP'' @ [CHR 0xE6, CHR 0x9C, CHR 0x8D, CHR 0xE5, CHR 0x8A, CHR 0xA1,
     CHR 0xE5, CHR 0x99, CHR 0xA8, CHR 0xE6, CHR 0x9C, CHR 0xAA, CHR 0xE5, CHR 0x90, CHR 0xAF,
     CHR 0xE5, CHR 0x8A, CHR 0xA8]"

definition msg_empty_response :: string where
  "msg_empty_response = [CHR 0xE7, CHR 0xA9, CHR 0xBA, CHR 0xE5, CHR 0x93, CHR 0x8D, CHR 0xE5,
     CHR 0xBA, CHR 0x94, CHR 0xEF, CHR 0xBC, CHR 0x8C, CHR 0xE5, CHR 0x8F, CHR 0xAF, CHR 0xE8,
     CHR 0x83, CHR 0xBD, CHR 0xE6, CHR 0x98, CHR 0xAF] @ ''Node.js'' @ [CHR 0xE5, CHR 0xAD,
     CHR 0x90, CHR 0xE8, CHR 0xBF, CHR 0x9B, CHR 0xE7, CHR 0xA8, CHR 0x8B, CHR 0xE6, CHR 0xB2,
     CHR 0xA1, CHR 0xE6, CHR 0x9C, CHR 0x89, CHR 0xE8, CHR 0xBE, CHR 0x93, CHR 0xE5, CHR 0x87,
     CHR 0xBA]"

definition msg_parse_prefix :: string where
  "msg_parse_prefix = [CHR 0xE6, CHR 0x97, CHR 0xA0, CHR 0xE6, CHR 0xB3, CHR 0x95, CHR 0xE8,
     CHR 0xA7, CHR 0xA3, CHR 0xE6, CHR 0x9E, CHR 0x90] @ ''JSON'' @ [CHR 0xE5, CHR 0x93,
     CHR 0x8D, CHR 0xE5, CHR 0xBA, CHR 0x94] @ '': ''"

definition msg_server_prefix :: string where
  "msg_server_prefix = ''MCP'' @ [CHR 0xE6, CHR 0x9C, CHR 0x8D, CHR 0xE5, CHR 0x8A, CHR 0xA1,
     CHR 0xE5, CHR 0x99, CHR 0xA8, CHR 0xE9, CHR 0x94, CHR 0x99, CHR 0xE8, CHR 0xAF, CHR 0xAF]
     @ '': ''"

definition msg_timeout :: string where
  "msg_timeout = [CHR 0xE7, CHR 0xAD, CHR 0x89, CHR 0xE5, CHR 0xBE, CHR 0x85] @ ''MCP'' @
     [CHR 0xE6, CHR 0x9C, CHR 0x8D, CHR 0xE5, CHR 0x8A, CHR 0xA1, CHR 0xE5, CHR 0x99, CHR 0xA8,
      CHR 0xE5, CHR 0x93, CHR 0x8D, CHR 0xE5, CHR 0xBA, CHR 0x94, CHR 0xE8, CHR 0xB6, CHR 0x85,
      CHR 0xE6, CHR 0x97, CHR 0xB6]"

text \<open>
  The text an exception carries (\<^verbatim>\<open>str(e)\<close>), given the rendering \<open>py_str\<close> of a value.
\<close>

fun exception_text :: "(pyval \<Rightarrow> string) \<Rightarrow> error \<Rightarrow> string" where
  "exception_text py_str (RuntimeError m) = m"
| "exception_text py_str (Exception m) = m"
| "exception_text py_str (ServerError v) = msg_server_prefix @ py_str v"
| "exception_text py_str (JSONDecodeError m) = m"
| "exception_text py_str _ = []"

text \<open>
  The class a handler sees: the three failures of a read that the client reports
  itself are all plain \<^verbatim>\<open>Exception\<close>.
\<close>

datatype exc_class = CException | CRuntimeError | CJSONDecodeError | COSError
  | CUnicodeDecodeError | CValueError | CRecursionError | CTypeError | CAttributeError

fun class_of :: "error \<Rightarrow> exc_class" where
  "class_of (RuntimeError m) = CRuntimeError"
| "class_of (Exception m) = CException"
| "class_of (ServerError v) = CException"
| "class_of (JSONDecodeError m) = CJSONDecodeError"
| "class_of BrokenPipeError = COSError"
| "class_of UnicodeDecodeError = CUnicodeDecodeError"
| "class_of ValueError = CValueError"
| "class_of RecursionError = CRecursionError"
| "class_of TypeError = CTypeError"
| "class_of AttributeError = CAttributeError"

text \<open>
  The part of \<^verbatim>\<open>_send_request\<close> after a line has been decoded:
  \<^verbatim>\<open>if "error" in response: raise ...; return response.get("result")\<close>. On a list or a
  str \<^verbatim>\<open>in\<close> is membership or substring, and then \<^verbatim>\<open>response['error']\<close> or \<^verbatim>\<open>.get\<close> fails.
\<close>

fun read_frame :: "pyval \<Rightarrow> pyval res" where
  "read_frame (PDict d) =
     (if has_key d ''error'' then Raise (ServerError (dict_get d ''error'' PNone))
      else Ok (dict_get d ''result'' PNone))"
| "read_frame (PList xs) =
     (if PStr ''error'' \<in> set xs then Raise TypeError else Raise AttributeError)"
| "read_frame (PStr s) =
     (if str_contains ''error'' s then Raise TypeError else Raise AttributeError)"
| "read_frame _ = Raise TypeError"

text \<open>
  The handlers \<^verbatim>\<open>except asyncio.TimeoutError\<close> and \<^verbatim>\<open>except Exception\<close> read the error
  stream, log it and raise again: the exception gets out only if that read comes back
  with something that decodes.
\<close>

definition diagnose :: "exchange \<Rightarrow> error \<Rightarrow> pyval res" where
  "diagnose x e =
     (case stderr x of
        Readable \<Rightarrow> Raise e
      | Blocks \<Rightarrow> Hang
      | Garbled \<Rightarrow> Raise UnicodeDecodeError)"

text \<open>
  What one exchange gives. Only a \<^verbatim>\<open>JSONDecodeError\<close> of the line is turned into the
  client's own \<^verbatim>\<open>Exception\<close>; any other exception of \<^verbatim>\<open>json.loads\<close> goes through
  \<^verbatim>\<open>except Exception\<close> unchanged.
\<close>

definition respond :: "decoder \<Rightarrow> exchange \<Rightarrow> pyval res" where
  "respond loads x =
     (case reply x of
        WriteFails \<Rightarrow> Raise BrokenPipeError
      | NoLine \<Rightarrow> diagnose x (Exception msg_timeout)
      | Eof \<Rightarrow> diagnose x (Exception msg_empty_response)
      | Overlong \<Rightarrow> diagnose x ValueError
      | Undecodable \<Rightarrow> diagnose x UnicodeDecodeError
      | Line l \<Rightarrow>
          (case loads l of
             Inl (JSONDecodeError m) \<Rightarrow> diagnose x (Exception (msg_parse_prefix @ m))
           | Inl e \<Rightarrow> diagnose x e
           | Inr response \<Rightarrow>
               (case read_frame response of
                  Ok v \<Rightarrow> Ok v
                | Raise e \<Rightarrow> diagnose x e
                | Hang \<Rightarrow> Hang)))"

text \<open>A child whose script has run out stays silent: the read times out.\<close>

definition silent :: exchange where
  "silent = \<lparr>reply = NoLine, stderr = Readable\<rparr>"

definition next_exchange :: "child \<Rightarrow> exchange" where
  "next_exchange ch = (case script ch of [] \<Rightarrow> silent | x # _ \<Rightarrow> x)"

definition send_request :: "decoder \<Rightarrow> mcp_server_stdio \<Rightarrow> pyval \<Rightarrow> mcp_server_stdio \<times> pyval res" where
  "send_request loads srv request =
     (case process srv of
        None \<Rightarrow> (srv, Raise (RuntimeError msg_not_started))
      | Some ch \<Rightarrow>
          (srv\<lparr>process := Some (ch\<lparr>inbox := inbox ch @ [request], script := tl (script ch)\<rparr>)\<rparr>,
           respond loads (next_exchange ch)))"

definition init_request :: "int \<Rightarrow> pyval" where
  "init_request i =
     PDict [(''jsonrpc'', PStr ''2.0''), (''id'', PInt i), (''method'', PStr ''initialize''),
       (''params'', PDict [(''protocolVersion'', PStr ''0.5.0''),
          (''clientInfo'', PDict [(''name'', PStr ''OpenAI Agent MCP Client''),
                                  (''version'', PStr ''1.0.0'')]),
          (''capabilities'', PDict [(''tools'', PDict [])])])]"

definition initialize :: "decoder \<Rightarrow> mcp_server_stdio \<Rightarrow> mcp_server_stdio \<times> pyval res" where
  "initialize loads srv =
     (if initialized srv then (srv, Ok PNone)
      else
        (case send_request loads (srv\<lparr>next_request_id := next_request_id srv + 1\<rparr>)
                (init_request (next_request_id srv)) of
           (srv', Ok v) \<Rightarrow> (srv'\<lparr>initialized := True\<rparr>, Ok v)
         | (srv', r) \<Rightarrow> (srv', r)))"

text \<open>\<^verbatim>\<open>__aenter__\<close> with the child that \<^verbatim>\<open>create_subprocess_exec\<close> has started.\<close>

definition aenter :: "decoder \<Rightarrow> mcp_server_stdio \<Rightarrow> child \<Rightarrow> mcp_server_stdio \<times> pyval res" where
  "aenter loads srv ch = initialize loads (srv\<lparr>process := Some ch\<rparr>)"

definition list_request :: "int \<Rightarrow> pyval" where
  "list_request i =
     PDict [(''jsonrpc'', PStr ''2.0''), (''id'', PInt i), (''method'', PStr ''tools/list'')]"

definition list_tools :: "decoder \<Rightarrow> mcp_server_stdio \<Rightarrow> mcp_server_stdio \<times> pyval res" where
  "list_tools loads srv =
     (if cache_tools_list srv \<and> truthy (tools_cache srv) then (srv, Ok (tools_cache srv))
      else
        (case send_request loads (srv\<lparr>next_request_id := next_request_id srv + 1\<rparr>)
                (list_request (next_request_id srv)) of
           (srv', Ok result) \<Rightarrow>
             ((if cache_tools_list srv' then srv'\<lparr>tools_cache := result\<rparr> else srv'), Ok result)
         | (srv', r) \<Rightarrow> (srv', r)))"

definition invalidate_tools_cache :: "mcp_server_stdio \<Rightarrow> mcp_server_stdio" where
  "invalidate_tools_cache srv = srv\<lparr>tools_cache := PNone\<rparr>"

definition call_request :: "int \<Rightarrow> string \<Rightarrow> pyval \<Rightarrow> pyval" where
  "call_request i tool_name arguments =
     PDict [(''jsonrpc'', PStr ''2.0''), (''id'', PInt i), (''method'', PStr ''tools/call''),
       (''params'', PDict [(''name'', PStr tool_name), (''arguments'', arguments)])]"

text \<open>
  The loop of \<^verbatim>\<open>call_tool\<close> over the content parts: the first part that is a dict of type
  \<^verbatim>\<open>'text'\<close> with a true \<^verbatim>\<open>text\<close> decides; \<^verbatim>\<open>json.loads(text)\<close> sits under a bare
  \<^verbatim>\<open>except\<close>, so any failure gives the text back. \<open>None\<close> is the loop running out.
\<close>

fun scan_content :: "decoder \<Rightarrow> pyval list \<Rightarrow> pyval option" where
  "scan_content loads [] = None"
| "scan_content loads (PDict item # rest) =
     (if dict_get item ''type'' PNone = PStr ''text'' then
        (let text = dict_get item ''text'' (PStr '''') in
         if truthy text then
           (case json_loads loads text of Ok v \<Rightarrow> Some v | _ \<Rightarrow> Some text)
         else scan_content loads rest)
      else scan_content loads rest)"
| "scan_content loads (_ # rest) = scan_content loads rest"

fun normalize_result :: "decoder \<Rightarrow> pyval \<Rightarrow> pyval" where
  "normalize_result loads (PDict d) =
     (if has_key d ''content'' then
        (case dict_get d ''content'' (PList []) of
           PList content \<Rightarrow>
             (if 0 < length content then
                (case scan_content loads content of Some v \<Rightarrow> v | None \<Rightarrow> PDict d)
              else PDict d)
         | _ \<Rightarrow> PDict d)
      else PDict d)"
| "normalize_result loads result = result"

definition call_tool ::
  "decoder \<Rightarrow> mcp_server_stdio \<Rightarrow> string \<Rightarrow> pyval \<Rightarrow> mcp_server_stdio \<times> pyval res" where
  "call_tool loads srv tool_name arguments =
     (case send_request loads (srv\<lparr>next_request_id := next_request_id srv + 1\<rparr>)
             (call_request (next_request_id srv) tool_name arguments) of
        (srv', Ok result) \<Rightarrow> (srv', Ok (normalize_result loads result))
      | (srv', r) \<Rightarrow> (srv', r))"

section \<open>The workflow: \<^verbatim>\<open>CompanyVerificationWorkflow\<close>\<close>

text \<open>
  The object's attributes. The three result lists are set by \<^verbatim>\<open>__init__\<close>, the four
  aggregates by \<^verbatim>\<open>run_complete_workflow\<close> before anything reads them. Each holds
  whatever the tool's response carried, so each is a value of any shape.
\<close>

record workflow =
  mcp_server :: mcp_server_stdio
  search_results :: pyval
  crawl_results :: pyval
  verify_results :: pyval
  best_match :: pyval
  linkedin_url :: pyval
  linkedin_found :: pyval
  match_count :: pyval

definition workflow_init :: "mcp_server_stdio \<Rightarrow> workflow" where
  "workflow_init srv =
     \<lparr>mcp_server = srv, search_results = PList [], crawl_results = PList [],
      verify_results = PList [], best_match = PNone, linkedin_url = PNone,
      linkedin_found = PBool False, match_count = PInt 0\<rparr>"

definition bind_res :: "'a res \<Rightarrow> ('a \<Rightarrow> 'b res) \<Rightarrow> 'b res" where
  "bind_res r f = (case r of Ok a \<Rightarrow> f a | Raise e \<Rightarrow> Raise e | Hang \<Rightarrow> Hang)"

text \<open>\<^verbatim>\<open>len(v)\<close>, which every success message of a stage formats.\<close>

fun py_len :: "pyval \<Rightarrow> nat res" where
  "py_len (PStr s) = Ok (length s)"
| "py_len (PList xs) = Ok (length xs)"
| "py_len (PDict d) = Ok (length d)"
| "py_len _ = Raise TypeError"

subsection \<open>Search\<close>

text \<open>
  The body of the \<^verbatim>\<open>try\<close> of \<^verbatim>\<open>execute_search\<close>. It gives the object as the body left
  it, and the exception that ended it, if one did: an attribute assigned before a
  failing \<^verbatim>\<open>len\<close> stays assigned. The \<^verbatim>\<open>JSONDecodeError\<close> of the inner \<^verbatim>\<open>try\<close> is
  handled there (logged); any other exception of \<^verbatim>\<open>json.loads\<close> ends the body.
\<close>

definition store_search :: "workflow \<Rightarrow> pyval \<Rightarrow> workflow \<times> unit res" where
  "store_search self v =
     (self\<lparr>search_results := v\<rparr>, bind_res (py_len v) (\<lambda>n. Ok ()))"

fun try_search :: "decoder \<Rightarrow> workflow \<Rightarrow> pyval \<Rightarrow> workflow \<times> unit res" where
  "try_search loads self (PDict d) =
     (if has_key d ''success'' \<and> has_key d ''results''
      then store_search self (dict_get d ''results'' (PList []))
      else (self, Ok ()))"
| "try_search loads self (PStr s) =
     (case loads s of
        Inl (JSONDecodeError m) \<Rightarrow> (self, Ok ())
      | Inl e \<Rightarrow> (self, Raise e)
      | Inr (PDict p) \<Rightarrow>
          (if truthy (dict_get p ''success'' PNone) \<and> has_key p ''results''
           then store_search self (dict_get p ''results'' PNone)
           else (self, Ok ()))
      | Inr _ \<Rightarrow> (self, Raise AttributeError))"
| "try_search loads self _ = (self, Ok ())"

text \<open>\<^verbatim>\<open>try: ... except Exception as e: logger.error(...)\<close>: the exception is dropped.\<close>

definition parse_search :: "decoder \<Rightarrow> workflow \<Rightarrow> pyval \<Rightarrow> workflow" where
  "parse_search loads self result = fst (try_search loads self result)"

definition execute_search :: "decoder \<Rightarrow> workflow \<Rightarrow> string \<Rightarrow> workflow \<times> pyval res" where
  "execute_search loads self company_name =
     (case call_tool loads (mcp_server self) ''search_company''
             (PDict [(''company_name'', PStr company_name)]) of
        (srv, Ok result) \<Rightarrow>
          (let wf' = parse_search loads (self\<lparr>mcp_server := srv\<rparr>) result
           in (wf', Ok (PDict [(''search_results'', search_results wf')])))
      | (srv, r) \<Rightarrow> (self\<lparr>mcp_server := srv\<rparr>, r))"

subsection \<open>Extracting the LinkedIn company pages\<close>

definition is_company_url :: "lowering \<Rightarrow> string \<Rightarrow> bool" where
  "is_company_url lower u = str_contains ''linkedin.com/company/'' (lower u)"

text \<open>
  The loop of \<^verbatim>\<open>extract_linkedin_urls\<close>, with the list built so far. Nothing here is
  under a \<^verbatim>\<open>try\<close>: \<^verbatim>\<open>result.get\<close> needs a dict and \<^verbatim>\<open>url.lower()\<close> a str.
\<close>

fun extract_loop :: "lowering \<Rightarrow> pyval list \<Rightarrow> pyval list \<Rightarrow> pyval list res" where
  "extract_loop lower linkedin_urls [] = Ok linkedin_urls"
| "extract_loop lower linkedin_urls (result # rest) =
     bind_res (py_get result ''url'' (PStr []))
       (\<lambda>url. case url of
          PStr u \<Rightarrow>
            extract_loop lower
              (if is_company_url lower u then linkedin_urls @ [url] else linkedin_urls) rest
        | _ \<Rightarrow> Raise AttributeError)"

definition extract_linkedin_urls :: "lowering \<Rightarrow> workflow \<Rightarrow> pyval list res" where
  "extract_linkedin_urls lower self =
     bind_res (py_iter (search_results self)) (extract_loop lower [])"

subsection \<open>Crawl\<close>

definition store_crawl :: "workflow \<Rightarrow> pyval \<Rightarrow> workflow \<times> unit res" where
  "store_crawl self v =
     (self\<lparr>crawl_results := v\<rparr>, bind_res (py_len v) (\<lambda>n. Ok ()))"

fun try_crawl :: "decoder \<Rightarrow> workflow \<Rightarrow> pyval \<Rightarrow> workflow \<times> unit res" where
  "try_crawl loads self (PDict d) =
     (if has_key d ''success'' \<and> has_key d ''results''
      then store_crawl self (dict_get d ''results'' (PList []))
      else if has_key d ''success'' \<and> has_key d ''pages''
      then store_crawl self (dict_get d ''pages'' (PList []))
      else (self, Ok ()))"
| "try_crawl loads self (PStr s) =
     (case loads s of
        Inl (JSONDecodeError m) \<Rightarrow> (self, Ok ())
      | Inl e \<Rightarrow> (self, Raise e)
      | Inr (PDict p) \<Rightarrow>
          (if truthy (dict_get p ''success'' PNone) \<and> has_key p ''results''
           then store_crawl self (dict_get p ''results'' PNone)
           else if truthy (dict_get p ''success'' PNone) \<and> has_key p ''pages''
           then store_crawl self (dict_get p ''pages'' PNone)
           else (self, Ok ()))
      | Inr _ \<Rightarrow> (self, Raise AttributeError))"
| "try_crawl loads self _ = (self, Ok ())"

definition parse_crawl :: "decoder \<Rightarrow> workflow \<Rightarrow> pyval \<Rightarrow> workflow" where
  "parse_crawl loads self result = fst (try_crawl loads self result)"

definition execute_crawl ::
  "decoder \<Rightarrow> workflow \<Rightarrow> pyval list \<Rightarrow> workflow \<times> pyval res" where
  "execute_crawl loads self urls =
     (if urls = [] then (self, Ok (PDict [(''crawl_results'', PList [])]))
      else
        (case call_tool loads (mcp_server self) ''crawl_multiple_pages''
                (PDict [(''urls'', PList urls)]) of
           (srv, Ok result) \<Rightarrow>
             (let wf' = parse_crawl loads (self\<lparr>mcp_server := srv\<rparr>) result
              in (wf', Ok (PDict [(''crawl_results'', crawl_results wf')])))
         | (srv, r) \<Rightarrow> (self\<lparr>mcp_server := srv\<rparr>, r)))"

subsection \<open>Verify\<close>

text \<open>
  The loop that picks the pages with a true \<^verbatim>\<open>content\<close> and a true \<^verbatim>\<open>url\<close>; it is not
  under a \<^verbatim>\<open>try\<close> either.
\<close>

fun pages_loop :: "pyval list \<Rightarrow> pyval list \<Rightarrow> pyval list res" where
  "pages_loop pages [] = Ok pages"
| "pages_loop pages (page # rest) =
     bind_res (py_get page ''content'' PNone) (\<lambda>content.
       if truthy content then
         bind_res (py_get page ''url'' PNone) (\<lambda>url.
           if truthy url
           then pages_loop (pages @ [PDict [(''url'', url), (''content'', content)]]) rest
           else pages_loop pages rest)
       else pages_loop pages rest)"

definition verify_pages :: "workflow \<Rightarrow> pyval list res" where
  "verify_pages self = bind_res (py_iter (crawl_results self)) (pages_loop [])"

definition verify_args :: "string \<Rightarrow> pyval list \<Rightarrow> string option \<Rightarrow> pyval" where
  "verify_args company_name pages official_website =
     PDict ([(''company_name'', PStr company_name), (''pages'', PList pages)] @
            (case official_website of
               None \<Rightarrow> []
             | Some w \<Rightarrow> if w \<noteq> [] then [(''official_website'', PStr w)] else []))"

text \<open>
  The \<^verbatim>\<open>results\<close> branch: the list is assigned, its length formatted, and only then are
  the four aggregates read from the same response.
\<close>

definition store_verify ::
  "workflow \<Rightarrow> (string \<times> pyval) list \<Rightarrow> pyval \<Rightarrow> workflow \<times> unit res" where
  "store_verify self d v =
     (let wf1 = self\<lparr>verify_results := v\<rparr> in
      case py_len v of
        Ok n \<Rightarrow>
          (wf1\<lparr>best_match := dict_get d ''best_match'' PNone,
               linkedin_url := dict_get d ''linkedin_url'' PNone,
               linkedin_found := dict_get d ''linkedin'' (PBool False),
               match_count := dict_get d ''match_count'' (PInt 0)\<rparr>, Ok ())
      | Raise e \<Rightarrow> (wf1, Raise e)
      | Hang \<Rightarrow> (wf1, Hang))"

definition store_verifications :: "workflow \<Rightarrow> pyval \<Rightarrow> workflow \<times> unit res" where
  "store_verifications self v =
     (self\<lparr>verify_results := v\<rparr>, bind_res (py_len v) (\<lambda>n. Ok ()))"

fun try_verify :: "decoder \<Rightarrow> workflow \<Rightarrow> pyval \<Rightarrow> workflow \<times> unit res" where
  "try_verify loads self (PDict d) =
     (if has_key d ''success'' \<and> has_key d ''results''
      then store_verify self d (dict_get d ''results'' (PList []))
      else if has_key d ''success'' \<and> has_key d ''verifications''
      then store_verifications self (dict_get d ''verifications'' (PList []))
      else (self, Ok ()))"
| "try_verify loads self (PStr s) =
     (case loads s of
        Inl (JSONDecodeError m) \<Rightarrow> (self, Ok ())
      | Inl e \<Rightarrow> (self, Raise e)
      | Inr (PDict p) \<Rightarrow>
          (if truthy (dict_get p ''success'' PNone) \<and> has_key p ''results''
           then store_verify self p (dict_get p ''results'' PNone)
           else if truthy (dict_get p ''success'' PNone) \<and> has_key p ''verifications''
           then store_verifications self (dict_get p ''verifications'' PNone)
           else (self, Ok ()))
      | Inr _ \<Rightarrow> (self, Raise AttributeError))"
| "try_verify loads self _ = (self, Ok ())"

definition parse_verify :: "decoder \<Rightarrow> workflow \<Rightarrow> pyval \<Rightarrow> workflow" where
  "parse_verify loads self result = fst (try_verify loads self result)"

definition execute_verify ::
  "decoder \<Rightarrow> workflow \<Rightarrow> string \<Rightarrow> string option \<Rightarrow> workflow \<times> pyval res" where
  "execute_verify loads self company_name official_website =
     (if \<not> truthy (crawl_results self) then (self, Ok (PDict [(''verify_results'', PList [])]))
      else
        (case verify_pages self of
           Raise e \<Rightarrow> (self, Raise e)
         | Hang \<Rightarrow> (self, Hang)
         | Ok pages \<Rightarrow>
             (if pages = [] then (self, Ok (PDict [(''verify_results'', PList [])]))
              else
                (case call_tool loads (mcp_server self) ''verify_multiple_contents''
                        (verify_args company_name pages official_website) of
                   (srv, Ok result) \<Rightarrow>
                     (let wf' = parse_verify loads (self\<lparr>mcp_server := srv\<rparr>) result
                      in (wf', Ok (PDict [(''verify_results'', verify_results wf')])))
                 | (srv, r) \<Rightarrow> (self\<lparr>mcp_server := srv\<rparr>, r)))))"

subsection \<open>The whole run\<close>

text \<open>
  \<^verbatim>\<open>self.linkedin_found and self.match_count > 0\<close>: Python's \<^verbatim>\<open>and\<close> gives its left
  operand when that is not true, and only otherwise evaluates the comparison.
\<close>

definition success_value :: "workflow \<Rightarrow> pyval res" where
  "success_value self =
     (if truthy (linkedin_found self)
      then bind_res (py_gt_zero (match_count self)) (\<lambda>b. Ok (PBool b))
      else Ok (linkedin_found self))"

definition final_result ::
  "workflow \<Rightarrow> string \<Rightarrow> string option \<Rightarrow> pyval \<Rightarrow> pyval \<Rightarrow> pyval \<Rightarrow> pyval \<Rightarrow>
   (string \<times> pyval) list" where
  "final_result self company_name official_website search_result crawl_result verify_result
     success =
     [(''company_name'', PStr company_name), (''search'', search_result),
      (''crawl'', crawl_result), (''verify'', verify_result), (''success'', success)] @
     (case official_website of
        None \<Rightarrow> []
      | Some w \<Rightarrow> if w \<noteq> [] then [(''official_website'', PStr w)] else []) @
     (if truthy (linkedin_found self)
      then [(''linkedin_found'', PBool True), (''linkedin_url'', linkedin_url self),
            (''match_count'', match_count self)]
      else []) @
     (if truthy (best_match self) then [(''best_match'', best_match self)] else [])"

definition reset_aggregates :: "workflow \<Rightarrow> workflow" where
  "reset_aggregates self =
     self\<lparr>best_match := PNone, linkedin_url := PNone, linkedin_found := PBool False,
        match_count := PInt 0\<rparr>"

definition run_complete_workflow ::
  "decoder \<Rightarrow> lowering \<Rightarrow> workflow \<Rightarrow> string \<Rightarrow> string option \<Rightarrow>
   workflow \<times> (string \<times> pyval) list res" where
  "run_complete_workflow loads lower self company_name official_website =
     (case execute_search loads (reset_aggregates self) company_name of
        (wf1, Raise e) \<Rightarrow> (wf1, Raise e)
      | (wf1, Hang) \<Rightarrow> (wf1, Hang)
      | (wf1, Ok search_result) \<Rightarrow>
          (case extract_linkedin_urls lower wf1 of
             Raise e \<Rightarrow> (wf1, Raise e)
           | Hang \<Rightarrow> (wf1, Hang)
           | Ok linkedin_urls \<Rightarrow>
               (case execute_crawl loads wf1 linkedin_urls of
                  (wf2, Raise e) \<Rightarrow> (wf2, Raise e)
                | (wf2, Hang) \<Rightarrow> (wf2, Hang)
                | (wf2, Ok crawl_result) \<Rightarrow>
                    (case execute_verify loads wf2 company_name official_website of
                       (wf3, Raise e) \<Rightarrow> (wf3, Raise e)
                     | (wf3, Hang) \<Rightarrow> (wf3, Hang)
                     | (wf3, Ok verify_result) \<Rightarrow>
                         (case success_value wf3 of
                            Raise e \<Rightarrow> (wf3, Raise e)
                          | Hang \<Rightarrow> (wf3, Hang)
                          | Ok success \<Rightarrow>
                              (wf3, Ok (final_result wf3 company_name official_website
                                          search_result crawl_result verify_result
                                          success)))))))"

section \<open>Sessions and what can be observed of a run\<close>

text \<open>
  A client session is any sequence of the client's operations on one entered client.
  An operation that never returns ends the session.
\<close>

datatype client_op = Initialize | ListTools | CallTool string pyval | InvalidateToolsCache

fun client_step ::
  "decoder \<Rightarrow> mcp_server_stdio \<Rightarrow> client_op \<Rightarrow> mcp_server_stdio \<times> pyval res" where
  "client_step loads srv Initialize = initialize loads srv"
| "client_step loads srv ListTools = list_tools loads srv"
| "client_step loads srv (CallTool tool_name arguments) =
     call_tool loads srv tool_name arguments"
| "client_step loads srv InvalidateToolsCache = (invalidate_tools_cache srv, Ok PNone)"

fun run_session :: "decoder \<Rightarrow> mcp_server_stdio \<Rightarrow> client_op list \<Rightarrow> mcp_server_stdio" where
  "run_session loads srv [] = srv"
| "run_session loads srv (c # cs) =
     (case client_step loads srv c of
        (srv', Hang) \<Rightarrow> srv'
      | (srv', _) \<Rightarrow> run_session loads srv' cs)"

definition fresh_child :: "exchange list \<Rightarrow> child" where
  "fresh_child scr = \<lparr>inbox = [], script = scr\<rparr>"

text \<open>The requests written so far, their \<^verbatim>\<open>id\<close> fields, and how many there are.\<close>

definition sent_requests :: "mcp_server_stdio \<Rightarrow> pyval list" where
  "sent_requests srv = (case process srv of None \<Rightarrow> [] | Some ch \<Rightarrow> inbox ch)"

fun request_id :: "pyval \<Rightarrow> int option" where
  "request_id (PDict d) = (case map_of d ''id'' of Some (PInt i) \<Rightarrow> Some i | _ \<Rightarrow> None)"
| "request_id _ = None"

definition sent_ids :: "mcp_server_stdio \<Rightarrow> int option list" where
  "sent_ids srv = (case process srv of None \<Rightarrow> [] | Some ch \<Rightarrow> map request_id (inbox ch))"

definition round_trips :: "mcp_server_stdio \<Rightarrow> nat" where
  "round_trips srv = (case process srv of None \<Rightarrow> 0 | Some ch \<Rightarrow> length (inbox ch))"

text \<open>What the next request of this client will meet, if it has a process.\<close>

definition pending :: "mcp_server_stdio \<Rightarrow> exchange option" where
  "pending srv = map_option next_exchange (process srv)"

definition line :: "string \<Rightarrow> exchange" where
  "line l = \<lparr>reply = Line l, stderr = Readable\<rparr>"

text \<open>
  The value that \<^verbatim>\<open>call_tool\<close> hands to the verify stage of a run, when the run gets
  that far and the call returns: the run of \<open>run_complete_workflow\<close> up to the local
  variable \<^verbatim>\<open>result\<close> of \<^verbatim>\<open>execute_verify\<close>.
\<close>

definition verify_call ::
  "decoder \<Rightarrow> workflow \<Rightarrow> string \<Rightarrow> string option \<Rightarrow> pyval option" where
  "verify_call loads self company_name official_website =
     (if \<not> truthy (crawl_results self) then None
      else
        (case verify_pages self of
           Ok pages \<Rightarrow>
             (if pages = [] then None
              else
                (case call_tool loads (mcp_server self) ''verify_multiple_contents''
                        (verify_args company_name pages official_website) of
                   (srv, Ok response) \<Rightarrow> Some response
                 | _ \<Rightarrow> None))
         | _ \<Rightarrow> None))"

definition verify_response ::
  "decoder \<Rightarrow> lowering \<Rightarrow> workflow \<Rightarrow> string \<Rightarrow> string option \<Rightarrow> pyval option" where
  "verify_response loads lower self company_name official_website =
     (case execute_search loads (reset_aggregates self) company_name of
        (self1, Ok search_result) \<Rightarrow>
          (case extract_linkedin_urls lower self1 of
             Ok linkedin_urls \<Rightarrow>
               (case execute_crawl loads self1 linkedin_urls of
                  (self2, Ok crawl_result) \<Rightarrow>
                    verify_call loads self2 company_name official_website
                | _ \<Rightarrow> None)
           | _ \<Rightarrow> None)
      | _ \<Rightarrow> None)"

section \<open>The specification's wording\<close>

subsection \<open>The result normalizer\<close>

text \<open>
  ``Scan for entries of kind text; for the first such entry with non-empty text,
  attempt to interpret the text as JSON and return the decoded value, otherwise return
  the raw text unchanged. If no such entry exists, return the result unchanged.''
\<close>

definition is_text_part :: "pyval \<Rightarrow> bool" where
  "is_text_part item =
     (case item of
        PDict i \<Rightarrow>
          dict_get i ''type'' PNone = PStr ''text'' \<and> truthy (dict_get i ''text'' (PStr []))
      | _ \<Rightarrow> False)"

definition part_text :: "pyval \<Rightarrow> pyval" where
  "part_text item = (case item of PDict i \<Rightarrow> dict_get i ''text'' (PStr []) | _ \<Rightarrow> PNone)"

definition decoded_or_raw :: "decoder \<Rightarrow> pyval \<Rightarrow> pyval" where
  "decoded_or_raw loads text =
     (case text of
        PStr s \<Rightarrow> (case loads s of Inr v \<Rightarrow> v | Inl m \<Rightarrow> text)
      | _ \<Rightarrow> text)"

definition normalizer_spec :: "decoder \<Rightarrow> pyval \<Rightarrow> pyval" where
  "normalizer_spec loads result =
     (case result of
        PDict d \<Rightarrow>
          (case map_of d ''content'' of
             Some (PList content) \<Rightarrow>
               (case find is_text_part content of
                  Some item \<Rightarrow> decoded_or_raw loads (part_text item)
                | None \<Rightarrow> result)
           | _ \<Rightarrow> result)
      | _ \<Rightarrow> result)"

subsection \<open>Search results and their URLs\<close>

text \<open>
  A search result is a mapping whose \<^verbatim>\<open>url\<close>, when it has one, is a string. The
  candidates are the URLs whose lower-cased form (by \<open>lower\<close>, whatever \<^verbatim>\<open>str.lower\<close>
  is) has \<^verbatim>\<open>linkedin.com/company/\<close> as a contiguous part (\<open>sublist\<close>), in the order of
  the results.
\<close>

definition search_result_ok :: "pyval \<Rightarrow> bool" where
  "search_result_ok r =
     (case r of
        PDict d \<Rightarrow>
          (case map_of d ''url'' of None \<Rightarrow> True | Some (PStr u) \<Rightarrow> True | Some _ \<Rightarrow> False)
      | _ \<Rightarrow> False)"

definition url_of :: "pyval \<Rightarrow> pyval" where
  "url_of r = (case r of PDict d \<Rightarrow> dict_get d ''url'' (PStr []) | _ \<Rightarrow> PNone)"

definition url_kept :: "lowering \<Rightarrow> pyval \<Rightarrow> bool" where
  "url_kept lower v =
     (case v of PStr u \<Rightarrow> sublist ''linkedin.com/company/'' (lower u) | _ \<Rightarrow> False)"

subsection \<open>The legacy verify response\<close>

text \<open>
  A verify response of the legacy shape carries its list under \<^verbatim>\<open>verifications\<close> and
  has no \<^verbatim>\<open>results\<close> field, as a mapping or as the text of one.
\<close>

definition legacy_verify_response :: "decoder \<Rightarrow> pyval \<Rightarrow> bool" where
  "legacy_verify_response loads response =
     (case response of
        PDict d \<Rightarrow> has_key d ''verifications'' \<and> \<not> has_key d ''results''
      | PStr s \<Rightarrow>
          (case loads s of
             Inr (PDict p) \<Rightarrow> has_key p ''verifications'' \<and> \<not> has_key p ''results''
           | _ \<Rightarrow> False)
      | _ \<Rightarrow> False)"

definition aggregates_unset :: "workflow \<Rightarrow> bool" where
  "aggregates_unset self \<longleftrightarrow>
     best_match self = PNone \<and> linkedin_url self = PNone \<and>
     linkedin_found self = PBool False \<and> match_count self = PInt 0"

subsection \<open>What the verify stage extracts\<close>

text \<open>
  ``On the \<^verbatim>\<open>results\<close> shape, additionally extracts workflow-level aggregates.'' The
  flag and the count that the verify stage takes from a response: the values of its
  \<^verbatim>\<open>linkedin\<close> and \<^verbatim>\<open>match_count\<close> fields (\<^verbatim>\<open>False\<close> and 0 for a field that is
  missing), when the response is a mapping with \<^verbatim>\<open>success\<close> and a \<^verbatim>\<open>results\<close> list (or
  the text of a mapping with a true \<^verbatim>\<open>success\<close> and a \<^verbatim>\<open>results\<close> list); nothing
  otherwise. A run in which the stage extracts nothing, or is skipped, has the flag
  \<^verbatim>\<open>False\<close> and the count 0.
\<close>

definition is_sized :: "pyval \<Rightarrow> bool" where
  "is_sized v = (case v of PStr s \<Rightarrow> True | PList xs \<Rightarrow> True | PDict d \<Rightarrow> True | _ \<Rightarrow> False)"

definition flags_of :: "(string \<times> pyval) list \<Rightarrow> pyval \<times> pyval" where
  "flags_of d = (dict_get d ''linkedin'' (PBool False), dict_get d ''match_count'' (PInt 0))"

definition extracted_flags :: "decoder \<Rightarrow> pyval \<Rightarrow> (pyval \<times> pyval) option" where
  "extracted_flags loads response =
     (case response of
        PDict d \<Rightarrow>
          (if has_key d ''success'' \<and> has_key d ''results'' \<and>
              is_sized (dict_get d ''results'' PNone)
           then Some (flags_of d) else None)
      | PStr s \<Rightarrow>
          (case loads s of
             Inr (PDict p) \<Rightarrow>
               (if truthy (dict_get p ''success'' PNone) \<and> has_key p ''results'' \<and>
                   is_sized (dict_get p ''results'' PNone)
                then Some (flags_of p) else None)
           | _ \<Rightarrow> None)
      | _ \<Rightarrow> None)"

definition verify_flags ::
  "decoder \<Rightarrow> lowering \<Rightarrow> workflow \<Rightarrow> string \<Rightarrow> string option \<Rightarrow> pyval \<times> pyval" where
  "verify_flags loads lower self company_name official_website =
     (case verify_response loads lower self company_name official_website of
        None \<Rightarrow> (PBool False, PInt 0)
      | Some response \<Rightarrow>
          (case extracted_flags loads response of
             None \<Rightarrow> (PBool False, PInt 0)
           | Some flags \<Rightarrow> flags))"

text \<open>A count strictly greater than zero: a number (a boolean counts as 0 or 1) above 0.\<close>

definition positive :: "pyval \<Rightarrow> bool" where
  "positive v =
     (case v of
        PInt i \<Rightarrow> 1 \<le> i
      | PBool b \<Rightarrow> b
      | PFloat (Finite r) \<Rightarrow> \<not> r \<le> 0
      | PFloat PosInf \<Rightarrow> True
      | _ \<Rightarrow> False)"

subsection \<open>Request ids\<close>

text \<open>The ids written so far are 1, 2, ... up to the one before the next.\<close>

definition ids_in_order :: "mcp_server_stdio \<Rightarrow> bool" where
  "ids_in_order srv \<longleftrightarrow>
     process srv \<noteq> None \<and> 1 \<le> next_request_id srv \<and>
     sent_ids srv = map Some [1..next_request_id srv - 1]"

subsection \<open>A concrete child and decoder\<close>

text \<open>
  The examples run against a decoder that knows the texts below and what
  \<^verbatim>\<open>json.loads\<close> makes of each; any other text is rejected with the message Python gives
  for a text that does not start with a JSON value. Their lower-casing is the one of the
  ASCII letters, which is what \<^verbatim>\<open>str.lower\<close> does on the texts of the examples, all
  of them ASCII.
\<close>

definition ascii_char_lower :: "char \<Rightarrow> char" where
  "ascii_char_lower c =
     (let n = (of_char c :: nat) in if 65 \<le> n \<and> n \<le> 90 then char_of (n + 32) else c)"

definition ascii_lower :: lowering where
  "ascii_lower s = map ascii_char_lower s"

definition frame :: "int \<Rightarrow> pyval \<Rightarrow> pyval" where
  "frame i v = PDict [(''id'', PInt i), (''result'', v)]"

definition acme_url :: string where
  "acme_url = ''https://linkedin.com/company/acme''"

definition acme_page :: pyval where
  "acme_page = PDict [(''url'', PStr acme_url), (''content'', PStr ''Acme Corp'')]"

definition acme_match :: pyval where
  "acme_match = PDict [(''url'', PStr acme_url), (''match_score'', PInt 9)]"

definition init_line :: string where
  \<open>init_line = ''{"id":1,"result":{}}''\<close>

definition search_line :: string where
  \<open>search_line = ''{"id":2,"result":{"success":true,"results":'' @
     ''[{"url":"https://linkedin.com/company/acme"}]}}''\<close>

definition search_payload :: pyval where
  "search_payload =
     PDict [(''success'', PBool True), (''results'', PList [PDict [(''url'', PStr acme_url)]])]"

definition crawl_line :: string where
  \<open>crawl_line = ''{"id":3,"result":{"success":true,"results":'' @
     ''[{"url":"https://linkedin.com/company/acme","content":"Acme Corp"}]}}''\<close>

definition crawl_payload :: pyval where
  "crawl_payload = PDict [(''success'', PBool True), (''results'', PList [acme_page])]"

definition verify_line :: string where
  \<open>verify_line = ''{"id":4,"result":{"success":true,"results":'' @
     ''[{"url":"https://linkedin.com/company/acme","match_score":9}],'' @
     ''"linkedin":true,"match_count":1,"best_match":'' @
     ''{"url":"https://linkedin.com/company/acme","match_score":9}}}''\<close>

definition verify_payload :: pyval where
  "verify_payload =
     PDict [(''success'', PBool True), (''results'', PList [acme_match]),
            (''linkedin'', PBool True), (''match_count'', PInt 1), (''best_match'', acme_match)]"

definition legacy_line :: string where
  \<open>legacy_line = ''{"id":4,"result":{"success":true,"verifications":'' @
     ''[{"url":"https://linkedin.com/company/acme","match_score":9}]}}''\<close>

definition legacy_payload :: pyval where
  "legacy_payload = PDict [(''success'', PBool True), (''verifications'', PList [acme_match])]"

definition bad_search_line :: string where
  \<open>bad_search_line = ''{"id":2,"result":{"success":true,"results":'' @
     ''["https://linkedin.com/company/acme"]}}''\<close>

definition bad_search_payload :: pyval where
  "bad_search_payload = PDict [(''success'', PBool True), (''results'', PList [PStr acme_url])]"

definition empty_search_line :: string where
  \<open>empty_search_line = ''{"id":5,"result":{"success":true,"results":[]}}''\<close>

definition empty_search_payload :: pyval where
  "empty_search_payload = PDict [(''success'', PBool True), (''results'', PList [])]"

definition second_verify_line :: string where
  \<open>second_verify_line = ''{"id":6,"result":{"success":true,"results":'' @
     ''[{"url":"https://linkedin.com/company/acme","match_score":9}],'' @
     ''"linkedin":true,"match_count":1,"best_match":'' @
     ''{"url":"https://linkedin.com/company/acme","match_score":9}}}''\<close>

definition null_flag_line :: string where
  \<open>null_flag_line = ''{"id":4,"result":{"success":true,"results":'' @
     ''[{"url":"https://linkedin.com/company/acme","match_score":2}],'' @
     ''"linkedin":null,"match_count":0}}''\<close>

definition weak_match :: pyval where
  "weak_match = PDict [(''url'', PStr acme_url), (''match_score'', PInt 2)]"

definition null_flag_payload :: pyval where
  "null_flag_payload =
     PDict [(''success'', PBool True), (''results'', PList [weak_match]),
            (''linkedin'', PNone), (''match_count'', PInt 0)]"

definition error_line :: string where
  \<open>error_line = ''{"id":2,"error":{"code":-32601,"message":"Method not found"}}''\<close>

definition error_fields :: "(string \<times> pyval) list" where
  "error_fields =
     [(''id'', PInt 2),
      (''error'', PDict [(''code'', PInt (- 32601)), (''message'', PStr ''Method not found'')])]"

definition error_frame :: pyval where
  "error_frame = PDict error_fields"

definition tools_line :: string where
  \<open>tools_line = ''{"id":2,"result":{"tools":[{"name":"search_company"}]}}''\<close>

definition tools_payload :: pyval where
  "tools_payload = PDict [(''tools'', PList [PDict [(''name'', PStr ''search_company'')]])]"

definition second_tools_line :: string where
  \<open>second_tools_line = ''{"id":3,"result":{"tools":[{"name":"search_company"}]}}''\<close>

definition empty_tools_line :: string where
  \<open>empty_tools_line = ''{"id":2,"result":{}}''\<close>

definition second_empty_tools_line :: string where
  \<open>second_empty_tools_line = ''{"id":3,"result":{}}''\<close>

definition not_json :: string where
  "not_json = ''not json''"

definition pages_text :: string where
  \<open>pages_text = ''{"success":true,"pages":[{"url":"u1","content":"c1"}]}''\<close>

definition results_text :: string where
  \<open>results_text = ''{"success":true,"results":[{"url":"u1","content":"c1"}]}''\<close>

definition page_u1 :: pyval where
  "page_u1 = PDict [(''url'', PStr ''u1''), (''content'', PStr ''c1'')]"

definition expecting_value :: string where
  "expecting_value = ''Expecting value: line 1 column 1 (char 0)''"

definition demo_table :: "(string \<times> pyval) list" where
  "demo_table =
     [(init_line, frame 1 (PDict [])),
      (search_line, frame 2 search_payload),
      (crawl_line, frame 3 crawl_payload),
      (verify_line, frame 4 verify_payload),
      (legacy_line, frame 4 legacy_payload),
      (null_flag_line, frame 4 null_flag_payload),
      (error_line, error_frame),
      (bad_search_line, frame 2 bad_search_payload),
      (empty_search_line, frame 5 empty_search_payload),
      (second_verify_line, frame 6 verify_payload),
      (tools_line, frame 2 tools_payload),
      (second_tools_line, frame 3 tools_payload),
      (empty_tools_line, frame 2 (PDict [])),
      (second_empty_tools_line, frame 3 (PDict [])),
      (pages_text, PDict [(''success'', PBool True), (''pages'', PList [page_u1])]),
      (results_text, PDict [(''success'', PBool True), (''results'', PList [page_u1])])]"

definition demo_loads :: decoder where
  "demo_loads s =
     (case map_of demo_table s of
        Some v \<Rightarrow> Inr v
      | None \<Rightarrow> Inl (JSONDecodeError expecting_value))"

text \<open>A session: the client is created, entered, and the child answers the handshake.\<close>

definition demo_server :: "string list \<Rightarrow> mcp_server_stdio" where
  "demo_server ls =
     fst (aenter demo_loads (mcp_init True) (fresh_child (map line (init_line # ls))))"

text \<open>The run of the specification's end-to-end scenario.\<close>

definition demo_run :: "workflow \<times> (string \<times> pyval) list res" where
  "demo_run =
     run_complete_workflow demo_loads ascii_lower
       (workflow_init (demo_server [search_line, crawl_line, verify_line])) ''Acme'' None"

definition demo_final :: "(string \<times> pyval) list" where
  "demo_final =
     [(''company_name'', PStr ''Acme''),
      (''search'', PDict [(''search_results'', PList [PDict [(''url'', PStr acme_url)]])]),
      (''crawl'', PDict [(''crawl_results'', PList [acme_page])]),
      (''verify'', PDict [(''verify_results'', PList [acme_match])]),
      (''success'', PBool True),
      (''linkedin_found'', PBool True), (''linkedin_url'', PNone), (''match_count'', PInt 1),
      (''best_match'', acme_match)]"

text \<open>The same run with a verify response of the legacy shape.\<close>

definition legacy_workflow :: workflow where
  "legacy_workflow = workflow_init (demo_server [search_line, crawl_line, legacy_line])"

text \<open>A search response whose results are bare strings, not mappings.\<close>

definition bad_search_workflow :: workflow where
  "bad_search_workflow = workflow_init (demo_server [bad_search_line])"

text \<open>
  A second run on the object the end-to-end run has left, for a company whose search
  finds nothing.
\<close>

definition reused_first_run :: "workflow \<times> (string \<times> pyval) list res" where
  "reused_first_run =
     run_complete_workflow demo_loads ascii_lower
       (workflow_init
          (demo_server [search_line, crawl_line, verify_line, empty_search_line,
                        second_verify_line])) ''Acme'' None"

definition second_run :: "workflow \<times> (string \<times> pyval) list res" where
  "second_run =
     run_complete_workflow demo_loads ascii_lower (fst reused_first_run) ''Other Ltd'' None"

definition second_final :: "(string \<times> pyval) list" where
  "second_final =
     [(''company_name'', PStr ''Other Ltd''),
      (''search'', PDict [(''search_results'', PList [])]),
      (''crawl'', PDict [(''crawl_results'', PList [])]),
      (''verify'', PDict [(''verify_results'', PList [acme_match])]),
      (''success'', PBool True),
      (''linkedin_found'', PBool True), (''linkedin_url'', PNone), (''match_count'', PInt 1),
      (''best_match'', acme_match)]"

text \<open>
  A run whose verify response reports no match with \<^verbatim>\<open>"linkedin": null\<close>.
\<close>

definition null_flag_workflow :: workflow where
  "null_flag_workflow = workflow_init (demo_server [search_line, crawl_line, null_flag_line])"

definition null_flag_run :: "workflow \<times> (string \<times> pyval) list res" where
  "null_flag_run = run_complete_workflow demo_loads ascii_lower null_flag_workflow ''Acme'' None"

definition null_flag_final :: "(string \<times> pyval) list" where
  "null_flag_final =
     [(''company_name'', PStr ''Acme''),
      (''search'', PDict [(''search_results'', PList [PDict [(''url'', PStr acme_url)]])]),
      (''crawl'', PDict [(''crawl_results'', PList [acme_page])]),
      (''verify'', PDict [(''verify_results'', PList [weak_match])]),
      (''success'', PNone)]"

text \<open>
  Sessions for the tool listing, for a line that is not JSON, for a child that stays
  silent and for one that answers with an error frame.
\<close>

definition silent_server :: mcp_server_stdio where
  "silent_server = demo_server []"

definition error_server :: mcp_server_stdio where
  "error_server = demo_server [error_line]"

definition tools_server :: mcp_server_stdio where
  "tools_server = demo_server [tools_line, second_tools_line]"

definition empty_tools_server :: mcp_server_stdio where
  "empty_tools_server = demo_server [empty_tools_line, second_empty_tools_line]"

definition not_json_server :: mcp_server_stdio where
  "not_json_server = demo_server [not_json]"

text \<open>Three search results: a company page in upper case, a personal profile, no URL.\<close>

definition three_results :: "pyval list" where
  "three_results =
     [PDict [(''url'', PStr ''HTTPS://LinkedIn.com/Company/acme''), (''title'', PStr ''Acme'')],
      PDict [(''url'', PStr ''linkedin.com/in/acme'')],
      PDict [(''title'', PStr ''no url'')]]"

section \<open>Properties of the client\<close>

subsection \<open>The result normalizer of \<^verbatim>\<open>call_tool\<close>\<close>

lemma scan_content_find:
  "scan_content loads content =
     (case find is_text_part content of
        Some item \<Rightarrow> Some (decoded_or_raw loads (part_text item))
      | None \<Rightarrow> None)"
proof (induction content)
  case Nil
  show ?case by simp
next
  case (Cons item rest)
  show ?case
  proof (cases item)
    case (PDict i)
    show ?thesis
    proof (cases "is_text_part item")
      case True
      with PDict have ty: "dict_get i ''type'' PNone = PStr ''text''"
        and tx: "truthy (dict_get i ''text'' (PStr []))"
        by (simp_all add: is_text_part_def)
      have "(case json_loads loads (dict_get i ''text'' (PStr [])) of
               Ok v \<Rightarrow> Some v | _ \<Rightarrow> Some (dict_get i ''text'' (PStr []))) =
            Some (decoded_or_raw loads (dict_get i ''text'' (PStr [])))"
        by (cases "dict_get i ''text'' (PStr [])")
           (simp_all add: decoded_or_raw_def split: sum.splits)
      with True PDict ty tx show ?thesis
        by (simp add: part_text_def)
    next
      case False
      with PDict Cons.IH show ?thesis
        by (auto simp: is_text_part_def Let_def)
    qed
  qed (use Cons.IH in \<open>simp_all add: is_text_part_def\<close>)
qed

lemma normalize_result_spec: "normalize_result loads result = normalizer_spec loads result"
proof (cases result)
  case (PDict d)
  show ?thesis
  proof (cases "map_of d ''content''")
    case None
    with PDict show ?thesis by (simp add: normalizer_spec_def has_key_def)
  next
    case (Some c)
    with PDict show ?thesis
      by (cases c)
         (auto simp: normalizer_spec_def has_key_def dict_get_def scan_content_find
               split: option.splits)
  qed
qed (simp_all add: normalizer_spec_def)

text \<open>
  Claim C6. For every decoded RPC result, the normalizer that \<^verbatim>\<open>call_tool\<close> applies is
  the one the specification words: on a mapping whose \<^verbatim>\<open>content\<close> is a list, the first
  entry of type \<^verbatim>\<open>text\<close> with a true text decides, and the answer is the decoded value
  of that text when it parses as JSON and the text itself otherwise; with no such entry,
  or on any other result, the result comes back unchanged. \<^verbatim>\<open>call_tool\<close> returns the
  normalized result of the request it sent, and passes a failure of the request on.
\<close>

theorem call_tool_normalizes:
  "normalize_result loads result = normalizer_spec loads result \<and>
   call_tool loads srv tool_name arguments =
     (case send_request loads (srv\<lparr>next_request_id := next_request_id srv + 1\<rparr>)
             (call_request (next_request_id srv) tool_name arguments) of
        (srv', Ok result) \<Rightarrow> (srv', Ok (normalizer_spec loads result))
      | (srv', r) \<Rightarrow> (srv', r))"
  by (simp add: normalize_result_spec call_tool_def split: prod.splits res.splits)

subsection \<open>A line that is not JSON\<close>

lemma parse_prefix_not_timeout: "msg_parse_prefix @ m \<noteq> msg_timeout"
  by (simp add: msg_parse_prefix_def msg_timeout_def)

lemma parse_prefix_not_server: "msg_parse_prefix @ m \<noteq> msg_server_prefix @ t"
  by (simp add: msg_parse_prefix_def msg_server_prefix_def)

text \<open>
  Claim C7, as stated, fails. The child answers \<^verbatim>\<open>not json\<close>; \<^verbatim>\<open>json.loads\<close> rejects
  it with ``Expecting value: line 1 column 1 (char 0)''. The client raises a plain
  \<^verbatim>\<open>Exception\<close>, of the same class as its timeout error, and the text it carries is the
  fixed prefix and the decoder's message: the raw line is not in it (the code writes the
  raw line to the log only).
\<close>

theorem not_json_line_counterexample:
  "snd (send_request demo_loads not_json_server (list_request 2)) =
     Raise (Exception (msg_parse_prefix @ expecting_value)) \<and>
   exception_text (\<lambda>v. []) (Exception (msg_parse_prefix @ expecting_value)) =
     msg_parse_prefix @ expecting_value \<and>
   \<not> str_contains not_json (msg_parse_prefix @ expecting_value) \<and>
   class_of (Exception (msg_parse_prefix @ expecting_value)) =
     class_of (Exception msg_timeout)"
  by code_simp

text \<open>
  Claim C7, amended. For every response line, within the stream reader's limit, that
  \<^verbatim>\<open>json.loads\<close> rejects with a \<^verbatim>\<open>JSONDecodeError\<close>, when the diagnostic read of
  the child's error stream comes back with text that decodes (or the end of the stream),
  \<^verbatim>\<open>_send_request\<close> raises a plain \<^verbatim>\<open>Exception\<close> whose text is the parse-failure
  prefix followed by the decoder's message. Under the same condition a child that sends
  no line in time makes it raise the \<^verbatim>\<open>Exception\<close> with the timeout text, and a
  well-formed frame with an \<^verbatim>\<open>error\<close> field makes it raise the \<^verbatim>\<open>Exception\<close> with the
  server-error prefix and that field. The three have the same class and are told apart
  by their texts, which differ.
\<close>

theorem undecodable_line_raises_exception:
  assumes rejected: "pending srv = Some (line l)" "loads l = Inl (JSONDecodeError m)"
    and timeout: "pending srv_t = Some \<lparr>reply = NoLine, stderr = Readable\<rparr>"
    and frame: "pending srv_e = Some (line l_e)" "loads l_e = Inr (PDict d)"
      "has_key d ''error''"
  shows "snd (send_request loads srv request) = Raise (Exception (msg_parse_prefix @ m)) \<and>
         snd (send_request loads srv_t request) = Raise (Exception msg_timeout) \<and>
         snd (send_request loads srv_e request) =
           Raise (ServerError (dict_get d ''error'' PNone)) \<and>
         exception_text py_str (Exception (msg_parse_prefix @ m)) = msg_parse_prefix @ m \<and>
         exception_text py_str (Exception (msg_parse_prefix @ m)) \<noteq>
           exception_text py_str (Exception msg_timeout) \<and>
         exception_text py_str (Exception (msg_parse_prefix @ m)) \<noteq>
           exception_text py_str (ServerError (dict_get d ''error'' PNone)) \<and>
         class_of (Exception (msg_parse_prefix @ m)) = CException \<and>
         class_of (Exception msg_timeout) = CException \<and>
         class_of (ServerError (dict_get d ''error'' PNone)) = CException"
proof -
  from rejected(1) obtain ch where ch: "process srv = Some ch"
    and x: "next_exchange ch = \<lparr>reply = Line l, stderr = Readable\<rparr>"
    by (auto simp: pending_def line_def)
  from timeout obtain ch_t where ch_t: "process srv_t = Some ch_t"
    and x_t: "next_exchange ch_t = \<lparr>reply = NoLine, stderr = Readable\<rparr>"
    by (auto simp: pending_def)
  from frame(1) obtain ch_e where ch_e: "process srv_e = Some ch_e"
    and x_e: "next_exchange ch_e = \<lparr>reply = Line l_e, stderr = Readable\<rparr>"
    by (auto simp: pending_def line_def)
  have parse: "snd (send_request loads srv request) =
                 Raise (Exception (msg_parse_prefix @ m))"
    using ch x rejected(2) by (simp add: send_request_def respond_def diagnose_def)
  have late: "snd (send_request loads srv_t request) = Raise (Exception msg_timeout)"
    using ch_t x_t by (simp add: send_request_def respond_def diagnose_def)
  have refused: "snd (send_request loads srv_e request) =
                   Raise (ServerError (dict_get d ''error'' PNone))"
    using ch_e x_e frame(2,3) by (simp add: send_request_def respond_def diagnose_def)
  show ?thesis
    using parse late refused parse_prefix_not_timeout parse_prefix_not_server
    by simp
qed

lemma not_json_pending: "pending not_json_server = Some (line not_json)"
  by code_simp

lemma not_json_rejected: "demo_loads not_json = Inl (JSONDecodeError expecting_value)"
  by code_simp

lemma silent_pending: "pending silent_server = Some \<lparr>reply = NoLine, stderr = Readable\<rparr>"
  by code_simp

lemma error_pending: "pending error_server = Some (line error_line)"
  by code_simp

lemma error_line_decoded: "demo_loads error_line = Inr (PDict error_fields)"
  by code_simp

lemma error_fields_error: "has_key error_fields ''error''"
  by code_simp

theorem undecodable_line_raises_exception_witness:
  "pending not_json_server = Some (line not_json) \<and>
   demo_loads not_json = Inl (JSONDecodeError expecting_value) \<and>
   pending silent_server = Some \<lparr>reply = NoLine, stderr = Readable\<rparr> \<and>
   pending error_server = Some (line error_line) \<and>
   demo_loads error_line = Inr (PDict error_fields) \<and>
   has_key error_fields ''error'' \<and>
   snd (send_request demo_loads not_json_server (list_request 2)) =
     Raise (Exception (msg_parse_prefix @ expecting_value)) \<and>
   snd (send_request demo_loads silent_server (list_request 2)) =
     Raise (Exception msg_timeout) \<and>
   snd (send_request demo_loads error_server (list_request 2)) =
     Raise (ServerError (dict_get error_fields ''error'' PNone)) \<and>
   exception_text (\<lambda>v. []) (Exception (msg_parse_prefix @ expecting_value)) \<noteq>
     exception_text (\<lambda>v. []) (Exception msg_timeout)"
  using undecodable_line_raises_exception
          [where loads = demo_loads and request = "list_request 2" and py_str = "\<lambda>v. []",
           OF not_json_pending not_json_rejected silent_pending error_pending
              error_line_decoded error_fields_error]
    not_json_pending not_json_rejected silent_pending error_pending error_line_decoded
    error_fields_error
  by simp

subsection \<open>The cache of the tool list\<close>

text \<open>
  Claim C8, as stated, fails. Caching is on and the child answers the listing with the
  empty mapping \<^verbatim>\<open>{}\<close>: the cache test \<^verbatim>\<open>self._tools_cache\<close> is a truth test, the
  empty mapping is not true, and the second of two consecutive calls goes to the child
  again: two round trips, not one.
\<close>

theorem list_tools_twice_counterexample:
  "cache_tools_list empty_tools_server \<and>
   snd (list_tools demo_loads empty_tools_server) = Ok (PDict []) \<and>
   round_trips (fst (list_tools demo_loads (fst (list_tools demo_loads empty_tools_server)))) =
     round_trips empty_tools_server + 2 \<and>
   round_trips (fst (list_tools demo_loads (fst (list_tools demo_loads empty_tools_server)))) \<noteq>
     round_trips empty_tools_server + 1"
  by code_simp

text \<open>
  Claim C8, amended. With caching enabled and nothing cached, when the first
  \<^verbatim>\<open>list_tools\<close> call returns a result that is true in Python's sense (any non-empty
  mapping, such as one with a \<^verbatim>\<open>tools\<close> list), that call has made exactly one round
  trip, a second call returns the same result and leaves the client as it was (no
  request is written), and after \<^verbatim>\<open>invalidate_tools_cache\<close> a third call makes exactly
  one more round trip.
\<close>

theorem list_tools_cached:
  assumes cache: "cache_tools_list srv"
    and empty: "tools_cache srv = PNone"
    and first: "list_tools loads srv = (srv1, Ok tools)"
    and tr: "truthy tools"
  shows "round_trips srv1 = round_trips srv + 1 \<and>
         list_tools loads srv1 = (srv1, Ok tools) \<and>
         round_trips (fst (list_tools loads (invalidate_tools_cache srv1))) =
           round_trips srv1 + 1"
proof -
  from first cache empty obtain ch where ch: "process srv = Some ch"
    by (cases "process srv") (auto simp: list_tools_def send_request_def)
  from first cache empty ch have
    srv1: "srv1 = srv\<lparr>next_request_id := next_request_id srv + 1,
                      process := Some (ch\<lparr>inbox := inbox ch @ [list_request (next_request_id srv)],
                                         script := tl (script ch)\<rparr>),
                      tools_cache := tools\<rparr>"
    by (auto simp: list_tools_def send_request_def split: res.splits)
  have one: "round_trips srv1 = round_trips srv + 1"
    by (simp add: srv1 round_trips_def ch)
  have two: "list_tools loads srv1 = (srv1, Ok tools)"
    using cache tr by (simp add: srv1 list_tools_def)
  have three: "round_trips (fst (list_tools loads (invalidate_tools_cache srv1))) =
                 round_trips srv1 + 1"
    by (simp add: srv1 list_tools_def invalidate_tools_cache_def send_request_def round_trips_def
             split: res.splits)
  from one two three show ?thesis by simp
qed

lemma tools_server_cache: "cache_tools_list tools_server \<and> tools_cache tools_server = PNone"
  by code_simp

lemma tools_server_first: "snd (list_tools demo_loads tools_server) = Ok tools_payload"
  by code_simp

lemma tools_payload_truthy: "truthy tools_payload"
  by code_simp

theorem list_tools_cached_witness:
  "cache_tools_list tools_server \<and> tools_cache tools_server = PNone \<and>
   list_tools demo_loads tools_server =
     (fst (list_tools demo_loads tools_server), Ok tools_payload) \<and>
   truthy tools_payload \<and>
   round_trips (fst (list_tools demo_loads tools_server)) = round_trips tools_server + 1 \<and>
   list_tools demo_loads (fst (list_tools demo_loads tools_server)) =
     (fst (list_tools demo_loads tools_server), Ok tools_payload) \<and>
   round_trips (fst (list_tools demo_loads
       (invalidate_tools_cache (fst (list_tools demo_loads tools_server))))) =
     round_trips (fst (list_tools demo_loads tools_server)) + 1"
proof -
  have first: "list_tools demo_loads tools_server =
                 (fst (list_tools demo_loads tools_server), Ok tools_payload)"
    using tools_server_first by (simp add: prod_eq_iff)
  show ?thesis
    using list_tools_cached [of tools_server demo_loads "fst (list_tools demo_loads tools_server)"
                                tools_payload, OF _ _ first tools_payload_truthy]
      tools_server_cache first tools_payload_truthy
    by simp
qed

subsection \<open>Request ids\<close>

lemma upto_snoc: "1 \<le> n \<Longrightarrow> [1..n + 1 - 1] = [1..n - 1] @ [n]"
  using upto_rec2 [of 1 n] by simp

lemma send_request_ids:
  assumes inv: "ids_in_order srv"
    and rid: "request_id request = Some (next_request_id srv)"
  shows "ids_in_order (fst (send_request loads (srv\<lparr>next_request_id := next_request_id srv + 1\<rparr>)
                              request))"
proof -
  from inv obtain ch where ch: "process srv = Some ch"
    by (auto simp: ids_in_order_def)
  from inv have n: "1 \<le> next_request_id srv"
    and ids: "sent_ids srv = map Some [1..next_request_id srv - 1]"
    by (simp_all add: ids_in_order_def)
  show ?thesis
    using ch n ids rid upto_snoc [OF n]
    by (simp add: send_request_def ids_in_order_def sent_ids_def)
qed

lemma ids_in_order_fields [simp]:
  "ids_in_order (srv\<lparr>initialized := b\<rparr>) = ids_in_order srv"
  "ids_in_order (srv\<lparr>tools_cache := v\<rparr>) = ids_in_order srv"
  by (simp_all add: ids_in_order_def sent_ids_def)

lemma request_id_simps [simp]:
  "request_id (init_request i) = Some i"
  "request_id (list_request i) = Some i"
  "request_id (call_request i t a) = Some i"
  by (simp_all add: init_request_def list_request_def call_request_def)

lemma initialize_ids: "ids_in_order srv \<Longrightarrow> ids_in_order (fst (initialize loads srv))"
  using send_request_ids [of srv "init_request (next_request_id srv)" loads]
  by (auto simp: initialize_def split: prod.splits res.splits)

lemma list_tools_ids: "ids_in_order srv \<Longrightarrow> ids_in_order (fst (list_tools loads srv))"
  using send_request_ids [of srv "list_request (next_request_id srv)" loads]
  by (auto simp: list_tools_def split: prod.splits res.splits)

lemma call_tool_ids: "ids_in_order srv \<Longrightarrow> ids_in_order (fst (call_tool loads srv t a))"
  using send_request_ids [of srv "call_request (next_request_id srv) t a" loads]
  by (auto simp: call_tool_def split: prod.splits res.splits)

lemma client_step_ids: "ids_in_order srv \<Longrightarrow> ids_in_order (fst (client_step loads srv c))"
  by (cases c)
     (simp_all add: initialize_ids list_tools_ids call_tool_ids invalidate_tools_cache_def)

lemma run_session_ids: "ids_in_order srv \<Longrightarrow> ids_in_order (run_session loads srv cs)"
proof (induction cs arbitrary: srv)
  case Nil
  then show ?case by simp
next
  case (Cons c cs)
  from Cons.prems have step: "ids_in_order (fst (client_step loads srv c))"
    by (rule client_step_ids)
  obtain srv' r where r: "client_step loads srv c = (srv', r)"
    by (cases "client_step loads srv c")
  with step have "ids_in_order srv'" by simp
  with Cons.IH [of srv'] r show ?case
    by (cases r) simp_all
qed

lemma aenter_ids: "ids_in_order (fst (aenter loads (mcp_init cache) (fresh_child scr)))"
proof -
  have "ids_in_order (mcp_init cache\<lparr>process := Some (fresh_child scr)\<rparr>)"
    by (simp add: ids_in_order_def sent_ids_def mcp_init_def fresh_child_def)
  then show ?thesis
    unfolding aenter_def by (rule initialize_ids)
qed

text \<open>
  Claim C9. In a session (a client created and entered on a fresh child, then any
  sequence of \<^verbatim>\<open>initialize\<close>, \<^verbatim>\<open>list_tools\<close>, \<^verbatim>\<open>call_tool\<close> and cache invalidations,
  whatever the child answers), every request written carries an integer id, and the ids
  in the order written are 1, 2, ... up to the one before the client's counter: strictly
  increasing, so none is used twice. They come from the counter alone, not from the
  caller's tool name or arguments.
\<close>

theorem request_ids_strictly_increasing:
  "\<exists>ids. sent_ids (run_session loads (fst (aenter loads (mcp_init cache) (fresh_child scr))) cs)
            = map Some ids \<and>
         sorted_wrt (<) ids \<and> distinct ids \<and>
         ids = [1..next_request_id
                     (run_session loads (fst (aenter loads (mcp_init cache) (fresh_child scr))) cs)
                   - 1]"
  using run_session_ids [OF aenter_ids, of loads loads cache scr cs]
  by (simp add: ids_in_order_def)

section \<open>Properties of the workflow\<close>

subsection \<open>Extracting the candidates\<close>

lemma str_contains_iff: "str_contains n h \<longleftrightarrow> (\<exists>ps ss. h = ps @ n @ ss)"
proof (induction h)
  case Nil
  then show ?case by simp
next
  case (Cons c cs)
  show ?case
  proof
    assume "str_contains n (c # cs)"
    then consider "prefix n (c # cs)" | "str_contains n cs" by auto
    then show "\<exists>ps ss. c # cs = ps @ n @ ss"
    proof cases
      case 1
      then obtain ss where "c # cs = n @ ss" by (auto simp: prefix_def)
      then have "c # cs = [] @ n @ ss" by simp
      then show ?thesis by blast
    next
      case 2
      with Cons obtain ps ss where "cs = ps @ n @ ss" by blast
      then have "c # cs = (c # ps) @ n @ ss" by simp
      then show ?thesis by blast
    qed
  next
    assume "\<exists>ps ss. c # cs = ps @ n @ ss"
    then obtain ps ss where e: "c # cs = ps @ n @ ss" by blast
    show "str_contains n (c # cs)"
    proof (cases ps)
      case Nil
      with e have "prefix n (c # cs)" by (simp add: prefix_def)
      then show ?thesis by simp
    next
      case (Cons p ps')
      with e have "cs = ps' @ n @ ss" by simp
      with Cons.IH have "str_contains n cs" by blast
      then show ?thesis by simp
    qed
  qed
qed

lemma str_contains_sublist: "str_contains n h = sublist n h"
  by (simp add: str_contains_iff sublist_def)

lemma url_kept_PStr: "url_kept lower (PStr u) = is_company_url lower u"
  by (simp add: url_kept_def is_company_url_def str_contains_sublist)

lemma extract_loop_filter:
  "list_all search_result_ok rs \<Longrightarrow>
   extract_loop lower acc rs = Ok (acc @ filter (url_kept lower) (map url_of rs))"
proof (induction rs arbitrary: acc)
  case Nil
  show ?case by simp
next
  case (Cons r rs)
  from Cons.prems have ok: "search_result_ok r" and rest: "list_all search_result_ok rs"
    by simp_all
  from ok obtain d where r: "r = PDict d"
    by (cases r) (simp_all add: search_result_ok_def)
  from ok r obtain u where u: "dict_get d ''url'' (PStr []) = PStr u"
    by (auto simp: search_result_ok_def dict_get_def split: option.splits pyval.splits)
  show ?case
    using Cons.IH [OF rest] r u
    by (simp add: bind_res_def url_of_def url_kept_PStr)
qed

lemma needle_in_lowered: "str_contains ''linkedin.com/company/'' ''https://linkedin.com/company/acme''"
  by code_simp

lemma needle_not_in_profile: "\<not> str_contains ''linkedin.com/company/'' ''linkedin.com/in/acme''"
  by code_simp

text \<open>
  Claim C5. For every list of search results (mappings whose \<^verbatim>\<open>url\<close>, when present, is
  a string) and whatever function \<^verbatim>\<open>str.lower\<close> is, \<^verbatim>\<open>extract_linkedin_urls\<close> returns,
  in the order of the results, exactly the URLs whose lower-cased form contains
  \<^verbatim>\<open>linkedin.com/company/\<close>; a result without a URL counts as the empty URL. Since
  \<^verbatim>\<open>str.lower\<close> turns \<^verbatim>\<open>HTTPS://LinkedIn.com/Company/acme\<close> into
  \<^verbatim>\<open>https://linkedin.com/company/acme\<close> and leaves \<^verbatim>\<open>linkedin.com/in/acme\<close> as it is,
  the first is kept and the second is not.
\<close>

theorem extract_linkedin_urls_filter:
  "(list_all search_result_ok rs \<longrightarrow>
      extract_linkedin_urls lower (self\<lparr>search_results := PList rs\<rparr>) =
        Ok (filter (url_kept lower) (map url_of rs))) \<and>
   (lower ''HTTPS://LinkedIn.com/Company/acme'' = ''https://linkedin.com/company/acme'' \<longrightarrow>
      url_kept lower (PStr ''HTTPS://LinkedIn.com/Company/acme'') \<and>
      extract_linkedin_urls lower
        (self\<lparr>search_results := PList [PDict [(''url'', PStr ''HTTPS://LinkedIn.com/Company/acme'')]]\<rparr>) =
        Ok [PStr ''HTTPS://LinkedIn.com/Company/acme'']) \<and>
   (lower ''linkedin.com/in/acme'' = ''linkedin.com/in/acme'' \<longrightarrow>
      \<not> url_kept lower (PStr ''linkedin.com/in/acme'') \<and>
      extract_linkedin_urls lower
        (self\<lparr>search_results := PList [PDict [(''url'', PStr ''linkedin.com/in/acme'')]]\<rparr>) =
        Ok [])"
proof -
  have general: "extract_linkedin_urls lower (self\<lparr>search_results := PList rs\<rparr>) =
                   Ok (filter (url_kept lower) (map url_of rs))"
    if "list_all search_result_ok rs" for rs
    using extract_loop_filter [OF that, of lower "[]"]
    by (simp add: extract_linkedin_urls_def bind_res_def)
  have upper: "url_kept lower (PStr ''HTTPS://LinkedIn.com/Company/acme'')"
    if "lower ''HTTPS://LinkedIn.com/Company/acme'' = ''https://linkedin.com/company/acme''"
    using that needle_in_lowered by (simp add: url_kept_PStr is_company_url_def)
  have profile: "\<not> url_kept lower (PStr ''linkedin.com/in/acme'')"
    if "lower ''linkedin.com/in/acme'' = ''linkedin.com/in/acme''"
    using that needle_not_in_profile by (simp add: url_kept_PStr is_company_url_def)
  have one: "list_all search_result_ok [PDict [(''url'', PStr u)]]" for u
    by (simp add: search_result_ok_def)
  have url: "url_of (PDict [(''url'', PStr u)]) = PStr u" for u
    by (simp add: url_of_def dict_get_def)
  show ?thesis
    using general upper profile general [OF one] url by simp
qed

lemma three_results_ok: "list_all search_result_ok three_results"
  by (simp add: three_results_def search_result_ok_def)

lemma ascii_lower_examples:
  "ascii_lower ''HTTPS://LinkedIn.com/Company/acme'' = ''https://linkedin.com/company/acme'' \<and>
   ascii_lower ''linkedin.com/in/acme'' = ''linkedin.com/in/acme''"
  by code_simp

lemma three_results_kept:
  "filter (url_kept ascii_lower) (map url_of three_results) =
     [PStr ''HTTPS://LinkedIn.com/Company/acme'']"
proof -
  have "\<not> is_company_url ascii_lower []"
    and "is_company_url ascii_lower ''HTTPS://LinkedIn.com/Company/acme''"
    and "\<not> is_company_url ascii_lower ''linkedin.com/in/acme''"
    by code_simp+
  then show ?thesis
    by (simp add: three_results_def url_of_def dict_get_def url_kept_PStr)
qed

theorem extract_linkedin_urls_filter_witness:
  "list_all search_result_ok three_results \<and>
   ascii_lower ''HTTPS://LinkedIn.com/Company/acme'' = ''https://linkedin.com/company/acme'' \<and>
   ascii_lower ''linkedin.com/in/acme'' = ''linkedin.com/in/acme'' \<and>
   extract_linkedin_urls ascii_lower
       (workflow_init (mcp_init False)\<lparr>search_results := PList three_results\<rparr>) =
     Ok [PStr ''HTTPS://LinkedIn.com/Company/acme''] \<and>
   url_kept ascii_lower (PStr ''HTTPS://LinkedIn.com/Company/acme'') \<and>
   \<not> url_kept ascii_lower (PStr ''linkedin.com/in/acme'')"
  using extract_linkedin_urls_filter
          [of three_results ascii_lower "workflow_init (mcp_init False)"]
    three_results_ok three_results_kept ascii_lower_examples
  by simp

subsection \<open>The two field names of a crawl response\<close>

lemma parse_crawl_results_dict:
  "has_key d ''success'' \<Longrightarrow> map_of d ''results'' = Some v \<Longrightarrow>
   parse_crawl loads self (PDict d) = self\<lparr>crawl_results := v\<rparr>"
  by (simp add: parse_crawl_def store_crawl_def has_key_def dict_get_def)

lemma parse_crawl_pages_dict:
  "has_key d ''success'' \<Longrightarrow> \<not> has_key d ''results'' \<Longrightarrow> map_of d ''pages'' = Some v \<Longrightarrow>
   parse_crawl loads self (PDict d) = self\<lparr>crawl_results := v\<rparr>"
  by (simp add: parse_crawl_def store_crawl_def has_key_def dict_get_def)

lemma parse_crawl_results_str:
  "loads s = Inr (PDict d) \<Longrightarrow> truthy (dict_get d ''success'' PNone) \<Longrightarrow>
   map_of d ''results'' = Some v \<Longrightarrow>
   parse_crawl loads self (PStr s) = self\<lparr>crawl_results := v\<rparr>"
  by (simp add: parse_crawl_def store_crawl_def has_key_def dict_get_def)

lemma parse_crawl_pages_str:
  "loads s = Inr (PDict d) \<Longrightarrow> truthy (dict_get d ''success'' PNone) \<Longrightarrow>
   \<not> has_key d ''results'' \<Longrightarrow> map_of d ''pages'' = Some v \<Longrightarrow>
   parse_crawl loads self (PStr s) = self\<lparr>crawl_results := v\<rparr>"
  by (simp add: parse_crawl_def store_crawl_def has_key_def dict_get_def)

text \<open>
  Claim C4. Let a crawl response with \<^verbatim>\<open>success\<close> true carry the list \<open>P\<close> of pages
  under \<^verbatim>\<open>pages\<close> (and have no \<^verbatim>\<open>results\<close> field), and let another carry \<open>P\<close> under
  \<^verbatim>\<open>results\<close>. The parser of the crawl stage leaves the workflow in the same state for
  both, with \<open>P\<close> as its crawl results, whether the two arrive as mappings or as the
  texts of these mappings.
\<close>

theorem crawl_pages_like_results:
  assumes p_success: "dict_get dp ''success'' PNone = PBool True"
    and p_pages: "map_of dp ''pages'' = Some (PList P)"
    and p_legacy: "\<not> has_key dp ''results''"
    and r_success: "dict_get dr ''success'' PNone = PBool True"
    and r_results: "map_of dr ''results'' = Some (PList P)"
    and p_text: "loads sp = Inr (PDict dp)"
    and r_text: "loads sr = Inr (PDict dr)"
  shows "parse_crawl loads self (PDict dp) = parse_crawl loads self (PDict dr) \<and>
         parse_crawl loads self (PStr sp) = parse_crawl loads self (PStr sr) \<and>
         crawl_results (parse_crawl loads self (PDict dp)) = PList P \<and>
         crawl_results (parse_crawl loads self (PStr sp)) = PList P"
proof -
  from p_success have p_key: "has_key dp ''success''"
    by (auto simp: has_key_def dict_get_def split: option.splits)
  from r_success have r_key: "has_key dr ''success''"
    by (auto simp: has_key_def dict_get_def split: option.splits)
  from p_success have p_true: "truthy (dict_get dp ''success'' PNone)" by simp
  from r_success have r_true: "truthy (dict_get dr ''success'' PNone)" by simp
  show ?thesis
    using parse_crawl_results_dict [OF r_key r_results]
      parse_crawl_pages_dict [OF p_key p_legacy p_pages]
      parse_crawl_results_str [of loads sr, OF r_text r_true r_results]
      parse_crawl_pages_str [of loads sp, OF p_text p_true p_legacy p_pages]
    by simp
qed

lemma pages_text_decoded:
  "demo_loads pages_text = Inr (PDict [(''success'', PBool True), (''pages'', PList [page_u1])])"
  by code_simp

lemma results_text_decoded:
  "demo_loads results_text =
     Inr (PDict [(''success'', PBool True), (''results'', PList [page_u1])])"
  by code_simp

theorem crawl_pages_like_results_witness:
  "demo_loads pages_text = Inr (PDict [(''success'', PBool True), (''pages'', PList [page_u1])]) \<and>
   demo_loads results_text =
     Inr (PDict [(''success'', PBool True), (''results'', PList [page_u1])]) \<and>
   parse_crawl demo_loads (workflow_init (mcp_init False))
       (PDict [(''success'', PBool True), (''pages'', PList [page_u1])]) =
     parse_crawl demo_loads (workflow_init (mcp_init False))
       (PDict [(''success'', PBool True), (''results'', PList [page_u1])]) \<and>
   parse_crawl demo_loads (workflow_init (mcp_init False)) (PStr pages_text) =
     parse_crawl demo_loads (workflow_init (mcp_init False)) (PStr results_text) \<and>
   crawl_results (parse_crawl demo_loads (workflow_init (mcp_init False)) (PStr pages_text)) =
     PList [page_u1]"
proof -
  have "dict_get [(''success'', PBool True), (''pages'', PList [page_u1])] ''success'' PNone =
          PBool True"
    and "map_of [(''success'', PBool True), (''pages'', PList [page_u1])] ''pages'' =
          Some (PList [page_u1])"
    and "\<not> has_key [(''success'', PBool True), (''pages'', PList [page_u1])] ''results''"
    and "dict_get [(''success'', PBool True), (''results'', PList [page_u1])] ''success'' PNone =
          PBool True"
    and "map_of [(''success'', PBool True), (''results'', PList [page_u1])] ''results'' =
          Some (PList [page_u1])"
    by (simp_all add: dict_get_def has_key_def)
  from crawl_pages_like_results
         [where loads = demo_loads and sp = pages_text and sr = results_text
            and self = "workflow_init (mcp_init False)",
          OF this pages_text_decoded results_text_decoded]
  show ?thesis
    using pages_text_decoded results_text_decoded by blast
qed

subsection \<open>The aggregates through the stages\<close>

lemma final_result_success:
  "dict_get (final_result self name site sr cr vr success) ''success'' PNone = success"
  by (simp add: final_result_def dict_get_def)

lemma aggregates_unset_reset: "aggregates_unset (reset_aggregates self)"
  by (simp add: aggregates_unset_def reset_aggregates_def)

lemma aggregates_unset_server [simp]:
  "aggregates_unset (self\<lparr>mcp_server := srv\<rparr>) = aggregates_unset self"
  by (simp add: aggregates_unset_def)

lemma parse_search_aggregates:
  "aggregates_unset (parse_search loads self result) = aggregates_unset self"
  by (cases result)
     (auto simp: parse_search_def store_search_def aggregates_unset_def
           split: sum.splits pyval.splits error.splits)

lemma parse_crawl_aggregates:
  "aggregates_unset (parse_crawl loads self result) = aggregates_unset self"
  by (cases result)
     (auto simp: parse_crawl_def store_crawl_def aggregates_unset_def
           split: sum.splits pyval.splits error.splits)

lemma execute_search_aggregates:
  "execute_search loads self name = (self', r) \<Longrightarrow>
   aggregates_unset self' = aggregates_unset self"
  by (auto simp: execute_search_def Let_def parse_search_aggregates
           split: prod.splits res.splits)

lemma execute_crawl_aggregates:
  "execute_crawl loads self urls = (self', r) \<Longrightarrow>
   aggregates_unset self' = aggregates_unset self"
  by (auto simp: execute_crawl_def Let_def parse_crawl_aggregates
           split: prod.splits res.splits if_splits)

lemma parse_verify_legacy:
  "legacy_verify_response loads response \<Longrightarrow>
   aggregates_unset (parse_verify loads self response) = aggregates_unset self"
  by (cases response)
     (auto simp: parse_verify_def store_verifications_def aggregates_unset_def
                 legacy_verify_response_def
           split: sum.splits pyval.splits error.splits)

lemma success_value_unset:
  "aggregates_unset self \<Longrightarrow> success_value self = Ok (PBool False)"
  by (simp add: aggregates_unset_def success_value_def)

lemma final_result_unset:
  "aggregates_unset self \<Longrightarrow>
   \<not> has_key (final_result self name site sr cr vr success) ''linkedin_found'' \<and>
   \<not> has_key (final_result self name site sr cr vr success) ''linkedin_url'' \<and>
   \<not> has_key (final_result self name site sr cr vr success) ''match_count'' \<and>
   \<not> has_key (final_result self name site sr cr vr success) ''best_match''"
  by (simp add: aggregates_unset_def final_result_def has_key_def split: option.splits)

lemma run_complete_workflow_stages:
  assumes "run_complete_workflow loads lower self name site = (self', Ok final)"
  obtains self1 sr urls self2 cr vr success where
    "execute_search loads (reset_aggregates self) name = (self1, Ok sr)"
    "extract_linkedin_urls lower self1 = Ok urls"
    "execute_crawl loads self1 urls = (self2, Ok cr)"
    "execute_verify loads self2 name site = (self', Ok vr)"
    "success_value self' = Ok success"
    "final = final_result self' name site sr cr vr success"
  using assms
  by (auto simp: run_complete_workflow_def split: prod.splits res.splits)

subsection \<open>The success flag\<close>

lemma has_key_dict_get: "has_key d k \<Longrightarrow> dict_get d k a = dict_get d k b"
  by (auto simp: has_key_def dict_get_def split: option.splits)

lemma store_verify_flags:
  "has_key d ''results'' \<Longrightarrow> aggregates_unset self \<Longrightarrow>
   (linkedin_found (fst (store_verify self d (dict_get d ''results'' a))),
    match_count (fst (store_verify self d (dict_get d ''results'' a)))) =
   (if is_sized (dict_get d ''results'' PNone) then flags_of d else (PBool False, PInt 0))"
  using has_key_dict_get [of d "''results''" a PNone]
  by (cases "dict_get d ''results'' PNone")
     (simp_all add: store_verify_def is_sized_def flags_of_def aggregates_unset_def)

lemma parse_verify_flags:
  assumes unset: "aggregates_unset self"
  shows "(linkedin_found (parse_verify loads self r), match_count (parse_verify loads self r)) =
           (case extracted_flags loads r of
              None \<Rightarrow> (PBool False, PInt 0)
            | Some flags \<Rightarrow> flags)"
proof (cases r)
  case (PDict d)
  show ?thesis
  proof (cases "has_key d ''success'' \<and> has_key d ''results''")
    case True
    then show ?thesis
      using store_verify_flags [of d self "PList []"] unset PDict
      by (simp add: parse_verify_def extracted_flags_def)
  next
    case False
    then show ?thesis
      using unset PDict
      by (auto simp: parse_verify_def extracted_flags_def store_verifications_def
                     aggregates_unset_def)
  qed
next
  case (PStr s)
  show ?thesis
  proof (cases "loads s")
    case (Inl e)
    with unset PStr show ?thesis
      by (cases e)
         (simp_all add: parse_verify_def extracted_flags_def aggregates_unset_def)
  next
    case (Inr v)
    show ?thesis
    proof (cases v)
      case (PDict p)
      show ?thesis
      proof (cases "truthy (dict_get p ''success'' PNone) \<and> has_key p ''results''")
        case True
        then show ?thesis
          using store_verify_flags [of p self PNone] unset PStr Inr PDict
          by (simp add: parse_verify_def extracted_flags_def)
      next
        case False
        then show ?thesis
          using unset PStr Inr PDict
          by (auto simp: parse_verify_def extracted_flags_def store_verifications_def
                         aggregates_unset_def)
      qed
    qed (use unset PStr Inr in
          \<open>simp_all add: parse_verify_def extracted_flags_def aggregates_unset_def\<close>)
  qed
qed (use unset in \<open>simp_all add: parse_verify_def extracted_flags_def aggregates_unset_def\<close>)

lemma execute_verify_flags:
  assumes unset: "aggregates_unset self"
    and verify: "execute_verify loads self name site = (self', Ok vr)"
  shows "(linkedin_found self', match_count self') =
           (case verify_call loads self name site of
              None \<Rightarrow> (PBool False, PInt 0)
            | Some r \<Rightarrow>
                (case extracted_flags loads r of
                   None \<Rightarrow> (PBool False, PInt 0)
                 | Some flags \<Rightarrow> flags))"
proof (cases "verify_call loads self name site")
  case None
  with verify have "self' = self"
    by (auto simp: execute_verify_def verify_call_def Let_def
             split: if_splits res.splits prod.splits)
  with unset None show ?thesis
    by (simp add: aggregates_unset_def)
next
  case (Some r)
  then obtain pages srv where
    "truthy (crawl_results self)" "verify_pages self = Ok pages" "pages \<noteq> []"
    "call_tool loads (mcp_server self) ''verify_multiple_contents''
       (verify_args name pages site) = (srv, Ok r)"
    by (auto simp: verify_call_def split: if_splits res.splits prod.splits)
  with verify have "self' = parse_verify loads (self\<lparr>mcp_server := srv\<rparr>) r"
    by (simp add: execute_verify_def Let_def)
  with unset Some show ?thesis
    using parse_verify_flags [of "self\<lparr>mcp_server := srv\<rparr>" loads r] by simp
qed

lemma py_gt_zero_positive: "py_gt_zero v = Ok b \<Longrightarrow> b = positive v"
proof (cases v)
  case (PFloat f)
  assume "py_gt_zero v = Ok b"
  with PFloat show ?thesis
    by (cases f) (auto simp: positive_def)
qed (auto simp: positive_def)

lemma success_value_cases:
  assumes "success_value self = Ok success"
  shows "(truthy (linkedin_found self) \<longrightarrow> success = PBool (positive (match_count self))) \<and>
         (\<not> truthy (linkedin_found self) \<longrightarrow> success = linkedin_found self)"
  using assms py_gt_zero_positive [of "match_count self"]
  by (auto simp: success_value_def bind_res_def split: if_splits res.splits)

text \<open>
  Claim C1, as stated, fails. The search and the crawl find the Acme page; the verify
  tool reports no match with \<^verbatim>\<open>"linkedin": null, "match_count": 0\<close>. The flag is not
  true, so this is one of the other cases, but \<^verbatim>\<open>self.linkedin_found and ...\<close> gives the
  flag itself: the \<^verbatim>\<open>success\<close> of the returned result is \<^verbatim>\<open>None\<close>, not \<^verbatim>\<open>False\<close>.
\<close>

theorem null_flag_success_counterexample:
  "verify_response demo_loads ascii_lower null_flag_workflow ''Acme'' None =
     Some null_flag_payload \<and>
   snd null_flag_run = Ok null_flag_final \<and>
   dict_get null_flag_final ''success'' PNone = PNone \<and>
   dict_get null_flag_final ''success'' PNone \<noteq> PBool False \<and>
   dict_get null_flag_final ''success'' PNone \<noteq> PBool True"
  by code_simp

text \<open>
  Claim C1, amended. For every run of \<^verbatim>\<open>run_complete_workflow\<close> that returns a result,
  let the flag and the count be what the verify stage extracts from the \<^verbatim>\<open>linkedin\<close>
  and \<^verbatim>\<open>match_count\<close> fields of its response, \<^verbatim>\<open>False\<close> and 0 when the stage is skipped
  or extracts nothing. They are what the workflow holds after the run. The \<^verbatim>\<open>success\<close>
  field is \<^verbatim>\<open>True\<close> if and only if the flag is true, in Python's sense, and the count
  is a number strictly greater than zero. When the flag is true \<^verbatim>\<open>success\<close> is the
  boolean of the comparison; when it is not, \<^verbatim>\<open>success\<close> is the flag itself: \<^verbatim>\<open>False\<close>
  for a boolean flag, and so in every run whose verify stage is skipped or extracts
  nothing.
\<close>

theorem success_iff_linkedin_and_matches:
  assumes run: "run_complete_workflow loads lower self company_name official_website =
                  (self', Ok final)"
    and flags: "verify_flags loads lower self company_name official_website = (flag, count)"
  shows "linkedin_found self' = flag \<and> match_count self' = count \<and>
         (dict_get final ''success'' PNone = PBool True \<longleftrightarrow> truthy flag \<and> positive count) \<and>
         (truthy flag \<longrightarrow> dict_get final ''success'' PNone = PBool (positive count)) \<and>
         (\<not> truthy flag \<longrightarrow> dict_get final ''success'' PNone = flag) \<and>
         (\<forall>b. flag = PBool b \<longrightarrow>
            dict_get final ''success'' PNone = PBool (b \<and> positive count)) \<and>
         (verify_response loads lower self company_name official_website = None \<longrightarrow>
            flag = PBool False \<and> count = PInt 0 \<and>
            dict_get final ''success'' PNone = PBool False)"
proof -
  from run obtain self1 sr urls self2 cr vr success where
    search: "execute_search loads (reset_aggregates self) company_name = (self1, Ok sr)"
    and urls: "extract_linkedin_urls lower self1 = Ok urls"
    and crawl: "execute_crawl loads self1 urls = (self2, Ok cr)"
    and verify: "execute_verify loads self2 company_name official_website = (self', Ok vr)"
    and s: "success_value self' = Ok success"
    and f: "final = final_result self' company_name official_website sr cr vr success"
    by (rule run_complete_workflow_stages)
  have "aggregates_unset self1"
    using execute_search_aggregates [OF search] aggregates_unset_reset by simp
  then have unset: "aggregates_unset self2"
    using execute_crawl_aggregates [OF crawl] by simp
  have response: "verify_response loads lower self company_name official_website =
                    verify_call loads self2 company_name official_website"
    using search urls crawl by (simp add: verify_response_def)
  have held: "(linkedin_found self', match_count self') = (flag, count)"
    using execute_verify_flags [OF unset verify] flags response
    by (simp add: verify_flags_def)
  then have flag: "linkedin_found self' = flag" and count: "match_count self' = count"
    by simp_all
  have skipped: "flag = PBool False \<and> count = PInt 0"
    if "verify_response loads lower self company_name official_website = None"
    using that flags by (simp add: verify_flags_def)
  have success: "dict_get final ''success'' PNone = success"
    by (simp add: f final_result_success)
  from success_value_cases [OF s] flag count
  have yes: "truthy flag \<longrightarrow> success = PBool (positive count)"
    and no: "\<not> truthy flag \<longrightarrow> success = flag"
    by simp_all
  have iff: "success = PBool True \<longleftrightarrow> truthy flag \<and> positive count"
    using yes no by (cases "truthy flag") auto
  have bool: "flag = PBool b \<longrightarrow> success = PBool (b \<and> positive count)" for b
    using yes no by (cases b) auto
  show ?thesis
    using flag count iff yes no bool skipped success by auto
qed

lemma demo_run_result: "snd demo_run = Ok demo_final"
  by code_simp

lemma demo_run_flags:
  "verify_flags demo_loads ascii_lower
     (workflow_init (demo_server [search_line, crawl_line, verify_line])) ''Acme'' None =
   (PBool True, PInt 1)"
  by code_simp

theorem success_iff_linkedin_and_matches_witness:
  "run_complete_workflow demo_loads ascii_lower
       (workflow_init (demo_server [search_line, crawl_line, verify_line])) ''Acme'' None =
     (fst demo_run, Ok demo_final) \<and>
   verify_flags demo_loads ascii_lower
       (workflow_init (demo_server [search_line, crawl_line, verify_line])) ''Acme'' None =
     (PBool True, PInt 1) \<and>
   linkedin_found (fst demo_run) = PBool True \<and>
   match_count (fst demo_run) = PInt 1 \<and>
   dict_get demo_final ''success'' PNone = PBool True"
proof -
  have run: "run_complete_workflow demo_loads ascii_lower
               (workflow_init (demo_server [search_line, crawl_line, verify_line])) ''Acme'' None =
             (fst demo_run, Ok demo_final)"
    using demo_run_result by (simp add: prod_eq_iff demo_run_def)
  have "positive (PInt 1)"
    by (simp add: positive_def)
  with success_iff_linkedin_and_matches [OF run demo_run_flags] run demo_run_flags
  show ?thesis by simp
qed

subsection \<open>The legacy verify response\<close>

text \<open>
  Claim C10. For every run whose verify stage receives a response of the legacy shape
  (the list under \<^verbatim>\<open>verifications\<close>, no \<^verbatim>\<open>results\<close> field; a mapping or the text of one),
  the run returns a result, and the aggregates are never set: \<open>best_match\<close> is still
  \<^verbatim>\<open>None\<close>, \<open>linkedin_found\<close> still \<^verbatim>\<open>False\<close>, \<open>match_count\<close> still 0, the result's
  \<^verbatim>\<open>success\<close> is \<^verbatim>\<open>False\<close>, and the result has none of the keys \<^verbatim>\<open>linkedin_found\<close>,
  \<^verbatim>\<open>linkedin_url\<close>, \<^verbatim>\<open>match_count\<close>, \<^verbatim>\<open>best_match\<close>, whatever the list holds.
\<close>

theorem legacy_verify_sets_no_aggregates:
  assumes response: "verify_response loads lower self company_name official_website = Some response"
    and legacy: "legacy_verify_response loads response"
  shows "\<exists>self' final.
           run_complete_workflow loads lower self company_name official_website = (self', Ok final) \<and>
           best_match self' = PNone \<and> linkedin_found self' = PBool False \<and>
           match_count self' = PInt 0 \<and>
           dict_get final ''success'' PNone = PBool False \<and>
           \<not> has_key final ''linkedin_found'' \<and> \<not> has_key final ''linkedin_url'' \<and>
           \<not> has_key final ''match_count'' \<and> \<not> has_key final ''best_match''"
proof -
  from response obtain self1 sr where
    search: "execute_search loads (reset_aggregates self) company_name = (self1, Ok sr)"
    by (auto simp: verify_response_def split: prod.splits res.splits)
  with response obtain urls where urls: "extract_linkedin_urls lower self1 = Ok urls"
    by (auto simp: verify_response_def split: prod.splits res.splits)
  with response search obtain self2 cr where
    crawl: "execute_crawl loads self1 urls = (self2, Ok cr)"
    by (auto simp: verify_response_def split: prod.splits res.splits)
  with response search urls have
    call: "verify_call loads self2 company_name official_website = Some response"
    by (simp add: verify_response_def)
  then have tr: "truthy (crawl_results self2)"
    by (auto simp: verify_call_def split: if_splits)
  with call obtain pages where pages: "verify_pages self2 = Ok pages" "pages \<noteq> []"
    by (auto simp: verify_call_def split: if_splits res.splits)
  with call tr obtain srv where
    tool: "call_tool loads (mcp_server self2) ''verify_multiple_contents''
             (verify_args company_name pages official_website) = (srv, Ok response)"
    by (auto simp: verify_call_def split: if_splits res.splits prod.splits)
  define self3 where "self3 = parse_verify loads (self2\<lparr>mcp_server := srv\<rparr>) response"
  have verify: "execute_verify loads self2 company_name official_website =
                  (self3, Ok (PDict [(''verify_results'', verify_results self3)]))"
    using tr pages tool by (simp add: execute_verify_def self3_def Let_def)
  have "aggregates_unset self1"
    using execute_search_aggregates [OF search] aggregates_unset_reset by simp
  then have "aggregates_unset self2"
    using execute_crawl_aggregates [OF crawl] by simp
  then have unset: "aggregates_unset self3"
    using parse_verify_legacy [OF legacy] by (simp add: self3_def)
  have run: "run_complete_workflow loads lower self company_name official_website =
               (self3, Ok (final_result self3 company_name official_website sr cr
                  (PDict [(''verify_results'', verify_results self3)]) (PBool False)))"
    using search urls crawl verify success_value_unset [OF unset]
    by (simp add: run_complete_workflow_def)
  show ?thesis
    using run unset final_result_unset [OF unset] final_result_success
    by (simp add: aggregates_unset_def)
qed

lemma legacy_run_response: "verify_response demo_loads ascii_lower legacy_workflow ''Acme'' None = Some legacy_payload"
  by code_simp

lemma legacy_payload_legacy: "legacy_verify_response demo_loads legacy_payload"
  by code_simp

lemma legacy_run_verified:
  "map_option (\<lambda>final. dict_get final ''verify'' PNone)
     (case snd (run_complete_workflow demo_loads ascii_lower legacy_workflow ''Acme'' None) of
        Ok final \<Rightarrow> Some final | _ \<Rightarrow> None) =
   Some (PDict [(''verify_results'', PList [acme_match])])"
  by code_simp

theorem legacy_verify_sets_no_aggregates_witness:
  "verify_response demo_loads ascii_lower legacy_workflow ''Acme'' None = Some legacy_payload \<and>
   legacy_verify_response demo_loads legacy_payload \<and>
   (\<exists>self' final.
      run_complete_workflow demo_loads ascii_lower legacy_workflow ''Acme'' None = (self', Ok final) \<and>
      dict_get final ''verify'' PNone = PDict [(''verify_results'', PList [acme_match])] \<and>
      linkedin_found self' = PBool False \<and>
      dict_get final ''success'' PNone = PBool False \<and>
      \<not> has_key final ''best_match'')"
proof -
  from legacy_verify_sets_no_aggregates [OF legacy_run_response legacy_payload_legacy]
  obtain self' final where
    run: "run_complete_workflow demo_loads ascii_lower legacy_workflow ''Acme'' None = (self', Ok final)"
    and rest: "linkedin_found self' = PBool False" "dict_get final ''success'' PNone = PBool False"
      "\<not> has_key final ''best_match''"
    by blast
  from run legacy_run_verified have
    "dict_get final ''verify'' PNone = PDict [(''verify_results'', PList [acme_match])]"
    by simp
  with run rest legacy_run_response legacy_payload_legacy show ?thesis by blast
qed

subsection \<open>Responses of an unexpected shape\<close>

text \<open>
  Claim C2, evaluated where the code departs from it. The search tool answers with
  \<^verbatim>\<open>{"success": true, "results": ["https://linkedin.com/company/acme"]}\<close>: the results
  are strings, not mappings. \<^verbatim>\<open>call_tool\<close> returns this value without raising, the
  \<^verbatim>\<open>try\<close> of \<^verbatim>\<open>execute_search\<close> stores the list, and the loop of
  \<^verbatim>\<open>extract_linkedin_urls\<close>, which is under no \<^verbatim>\<open>try\<close>, calls \<^verbatim>\<open>.get\<close> on a string:
  \<^verbatim>\<open>run_complete_workflow\<close> raises \<^verbatim>\<open>AttributeError\<close> and returns no result.
\<close>

theorem unexpected_search_shape_raises:
  "snd (call_tool demo_loads (mcp_server bad_search_workflow) ''search_company''
          (PDict [(''company_name'', PStr ''Acme'')])) = Ok bad_search_payload \<and>
   snd (run_complete_workflow demo_loads ascii_lower bad_search_workflow ''Acme'' None) =
     Raise AttributeError"
  by code_simp

subsection \<open>A search that finds nothing\<close>

lemma parse_search_crawl_results:
  "crawl_results (parse_search loads self result) = crawl_results self"
  by (cases result)
     (auto simp: parse_search_def store_search_def split: sum.splits pyval.splits error.splits)

lemma execute_search_result:
  "execute_search loads self name = (self', Ok sr) \<Longrightarrow>
   crawl_results self' = crawl_results self \<and>
   sr = PDict [(''search_results'', search_results self')]"
  by (auto simp: execute_search_def Let_def parse_search_crawl_results
           split: prod.splits res.splits)

text \<open>
  On a workflow whose crawl results are empty, as \<^verbatim>\<open>__init__\<close> leaves them, a search
  that yields no result ends the run there: the state after the run is the state after
  the search (no request follows), the three lists of the result are empty and
  \<^verbatim>\<open>success\<close> is \<^verbatim>\<open>False\<close>.
\<close>

lemma empty_search_on_fresh_workflow:
  assumes search: "execute_search loads (reset_aggregates self) name = (self1, Ok sr)"
    and none_found: "search_results self1 = PList []"
    and fresh: "crawl_results self = PList []"
  shows "run_complete_workflow loads lower self name site =
           (self1, Ok (final_result self1 name site
                         (PDict [(''search_results'', PList [])])
                         (PDict [(''crawl_results'', PList [])])
                         (PDict [(''verify_results'', PList [])]) (PBool False)))"
proof -
  from execute_search_result [OF search]
  have kept: "crawl_results self1 = crawl_results (reset_aggregates self)"
    and built: "sr = PDict [(''search_results'', search_results self1)]"
    by simp_all
  from built none_found have sr: "sr = PDict [(''search_results'', PList [])]"
    by simp
  from kept fresh have crawl: "crawl_results self1 = PList []"
    by (simp add: reset_aggregates_def)
  have urls: "extract_linkedin_urls lower self1 = Ok []"
    using none_found by (simp add: extract_linkedin_urls_def bind_res_def)
  have unset: "aggregates_unset self1"
    using execute_search_aggregates [OF search] aggregates_unset_reset by simp
  show ?thesis
    using search sr urls crawl success_value_unset [OF unset]
    by (simp add: run_complete_workflow_def execute_crawl_def execute_verify_def)
qed

text \<open>
  Claim C3, evaluated where the code departs from it. \<^verbatim>\<open>run_complete_workflow\<close> resets
  the four aggregates but not the three result lists. The end-to-end run for Acme
  leaves the crawled page in \<open>crawl_results\<close>. A second run on the same object, for a
  company whose search returns \<^verbatim>\<open>{"success": true, "results": []}\<close>, yields zero search
  results and skips the crawl call, but \<^verbatim>\<open>execute_verify\<close> finds the page of the first
  run: after the search request it writes a \<^verbatim>\<open>verify_multiple_contents\<close> request with
  that page, and the run returns a non-empty verify list and \<^verbatim>\<open>success\<close> true.
\<close>

theorem stale_crawl_results_reach_verify:
  "crawl_results (fst reused_first_run) = PList [acme_page] \<and>
   search_results (fst second_run) = PList [] \<and>
   sent_requests (mcp_server (fst second_run)) =
     sent_requests (mcp_server (fst reused_first_run)) @
     [call_request 5 ''search_company'' (PDict [(''company_name'', PStr ''Other Ltd'')]),
      call_request 6 ''verify_multiple_contents'' (verify_args ''Other Ltd'' [acme_page] None)] \<and>
   snd second_run = Ok second_final \<and>
   dict_get second_final ''verify'' PNone = PDict [(''verify_results'', PList [acme_match])] \<and>
   dict_get second_final ''success'' PNone = PBool True"
  by code_simp

end
